theory Spec2Isabelle
  imports Main
begin

section \<open>Campus navigator: the data manager\<close>

text \<open>
  A shallow embedding of \<^verbatim>\<open>utils/data_manager.py\<close> (class \<^verbatim>\<open>DataManager\<close>): validation and
  import of the two tabular formats, export, and search.

  The pandas frame is modelled as it arrives from \<^verbatim>\<open>pd.read_csv\<close>: a list of column names and
  a list of rows. The text encoding of CSV (\<^verbatim>\<open>read_csv\<close>, \<^verbatim>\<open>to_csv\<close>) is pandas' and is not
  part of the model: import takes a frame and export returns the frame that is written.
  The database layer (\<^verbatim>\<open>_save_to_database\<close>) only reads the in-memory state and every
  exception it raises is caught and printed by \<^verbatim>\<open>_process_data\<close>; it is left out.
\<close>

subsection \<open>Cells and the Python primitives applied to them\<close>

text \<open>
  A cell of a frame is a missing value (\<^verbatim>\<open>NaN\<close>), a string, an integer or a float. The type
  of floats is a parameter \<open>'f\<close>: no float is ever computed with, only passed through,
  printed, parsed or tested for zero. Equality of cells is structural; a missing value equals
  itself, as it does for \<^verbatim>\<open>Series.duplicated\<close>.
\<close>

datatype 'f cell = NaN | Str string | Num int | Flt 'f

text \<open>
  The Python built-ins the code calls and the model does not define: \<^verbatim>\<open>hash\<close>, \<^verbatim>\<open>float\<close> on
  an integer and on a string (\<open>None\<close> is \<^verbatim>\<open>ValueError\<close>), \<^verbatim>\<open>str\<close> of a float and the truth
  value of a float.

  \<open>py_hash\<close> is \<^verbatim>\<open>hash\<close> within one interpreter session, where the hash of a string (salted
  per session), of an integer and of a float other than NaN is a function of the value. The
  hash of a missing value is not: a missing cell is a NaN float, which CPython (3.10 and
  later) hashes by the identity of the object, so that two reads of a blank cell may hash
  differently. What \<open>py_hash\<close> gives for \<open>NaN\<close> stands for the hash of one such object; the
  properties below that mention a hash are stated for identifiers that are not missing, and
  nothing is derived from the hash of \<open>NaN\<close>.
\<close>

record 'f py =
  py_hash :: "'f cell \<Rightarrow> int"
  float_of_int :: "int \<Rightarrow> 'f"
  float_of_str :: "string \<Rightarrow> 'f option"
  str_of_float :: "'f \<Rightarrow> string"
  float_is_zero :: "'f \<Rightarrow> bool"

fun str_nat :: "nat \<Rightarrow> string" where
  "str_nat n =
     (if n < 10 then [''0123456789'' ! n]
      else str_nat (n div 10) @ [''0123456789'' ! (n mod 10)])"

declare str_nat.simps [simp del]

definition str_int :: "int \<Rightarrow> string" where
  "str_int i = (if i < 0 then CHR ''-'' # str_nat (nat (- i)) else str_nat (nat i))"

text \<open>\<^verbatim>\<open>str(v)\<close>, also what an f-string \<^verbatim>\<open>f"dept_{v}"\<close> inserts.\<close>

definition py_str :: "'f py \<Rightarrow> 'f cell \<Rightarrow> string" where
  "py_str py v =
     (case v of NaN \<Rightarrow> ''nan'' | Str s \<Rightarrow> s | Num i \<Rightarrow> str_int i
      | Flt f \<Rightarrow> str_of_float py f)"

text \<open>The truth value of \<^verbatim>\<open>v\<close> in \<^verbatim>\<open>if v\<close>: a NaN is true, an empty string and a zero are false.\<close>

definition truthy :: "'f py \<Rightarrow> 'f cell \<Rightarrow> bool" where
  "truthy py v =
     (case v of NaN \<Rightarrow> True | Str s \<Rightarrow> s \<noteq> [] | Num i \<Rightarrow> i \<noteq> 0
      | Flt f \<Rightarrow> \<not> float_is_zero py f)"

text \<open>
  Strings are lists of characters; \<^verbatim>\<open>lower\<close> and \<^verbatim>\<open>strip\<close> are modelled on ASCII
  (letters A to Z; blank, tab, newline, vertical tab, form feed, carriage return).
\<close>

definition lower_char :: "char \<Rightarrow> char" where
  "lower_char c =
     (case map_of (zip ''ABCDEFGHIJKLMNOPQRSTUVWXYZ'' ''abcdefghijklmnopqrstuvwxyz'') c of
        Some l \<Rightarrow> l | None \<Rightarrow> c)"

definition lower :: "string \<Rightarrow> string" where
  "lower s = map lower_char s"

definition is_space :: "char \<Rightarrow> bool" where
  "is_space c = (c \<in> set [CHR '' '', CHR 0x09, CHR 0x0A, CHR 0x0B, CHR 0x0C, CHR 0x0D])"

definition strip :: "string \<Rightarrow> string" where
  "strip s = rev (dropWhile is_space (rev (dropWhile is_space s)))"

text \<open>\<^verbatim>\<open>q in s\<close> on strings: \<open>q\<close> occurs in \<open>s\<close> as a contiguous piece.\<close>

fun starts_with :: "'a list \<Rightarrow> 'a list \<Rightarrow> bool" where
  "starts_with [] s = True"
| "starts_with (a # q) [] = False"
| "starts_with (a # q) (b # s) = (a = b \<and> starts_with q s)"

fun contains :: "'a list \<Rightarrow> 'a list \<Rightarrow> bool" where
  "contains q [] = (q = [])"
| "contains q (b # s) = (starts_with q (b # s) \<or> contains q s)"

subsection \<open>Frames\<close>

text \<open>
  A row lists the cells it has by column name; a cell the row does not list reads as missing,
  which is how \<^verbatim>\<open>read_csv\<close> pads a short line. Entries under names that are not columns of
  the frame are never read.
\<close>

type_synonym 'f row = "(string \<times> 'f cell) list"

record 'f table =
  columns :: "string list"
  rows :: "'f row list"

definition cell_at :: "'f row \<Rightarrow> string \<Rightarrow> 'f cell" where
  "cell_at r c = (case map_of r c of Some v \<Rightarrow> v | None \<Rightarrow> NaN)"

text \<open>\<^verbatim>\<open>df[c]\<close> for a column \<open>c\<close> of the frame.\<close>

definition column :: "'f table \<Rightarrow> string \<Rightarrow> 'f cell list" where
  "column d c = map (\<lambda>r. cell_at r c) (rows d)"

text \<open>\<^verbatim>\<open>df.empty\<close>: one of the axes has length 0.\<close>

definition empty_frame :: "'f table \<Rightarrow> bool" where
  "empty_frame d = (rows d = [] \<or> columns d = [])"

text \<open>
  The exceptions and error messages of the module. \<open>DuplicateValues c vs\<close> is the message
  \<^verbatim>\<open>"Duplicate {c} values found: {', '.join(map(str, vs))}"\<close>; \<open>StrAccessorError\<close> is the
  \<^verbatim>\<open>AttributeError\<close> of \<^verbatim>\<open>Series.str\<close> on a column that holds no strings.
\<close>

datatype 'f error =
    FormatNotRecognized
  | MissingColumns "string list"
  | DuplicateValues string "'f cell list"
  | KeyError string
  | StrAccessorError

text \<open>\<^verbatim>\<open>row[c]\<close> raises \<^verbatim>\<open>KeyError\<close> when the frame has no such column; \<^verbatim>\<open>row.get(c, d)\<close> and
  \<^verbatim>\<open>row.get(c)\<close> do not.\<close>

definition row_item :: "string list \<Rightarrow> 'f row \<Rightarrow> string \<Rightarrow> 'f error + 'f cell" where
  "row_item cols r c = (if c \<in> set cols then Inr (cell_at r c) else Inl (KeyError c))"

definition row_get :: "string list \<Rightarrow> 'f row \<Rightarrow> string \<Rightarrow> 'f cell \<Rightarrow> 'f cell" where
  "row_get cols r c dflt = (if c \<in> set cols then cell_at r c else dflt)"

definition row_get_opt :: "string list \<Rightarrow> 'f row \<Rightarrow> string \<Rightarrow> 'f cell option" where
  "row_get_opt cols r c = (if c \<in> set cols then Some (cell_at r c) else None)"

text \<open>\<^verbatim>\<open>s.duplicated().any()\<close> is \<open>\<not> distinct\<close>; the values \<^verbatim>\<open>s[s.duplicated(keep=False)].unique()\<close>
  are those that occur more than once, each listed once, in order of first appearance.\<close>

definition unique :: "'a list \<Rightarrow> 'a list" where
  "unique xs = rev (remdups (rev xs))"

definition dupes :: "'a list \<Rightarrow> 'a list" where
  "dupes xs = unique (filter (\<lambda>x. 1 < count_list xs x) xs)"

text \<open>\<^verbatim>\<open>df.drop_duplicates(c)\<close>: the rows that hold the first occurrence of their value in \<open>c\<close>.\<close>

fun first_occurrences :: "'k list \<Rightarrow> ('r \<Rightarrow> 'k) \<Rightarrow> 'r list \<Rightarrow> 'r list" where
  "first_occurrences seen key [] = []"
| "first_occurrences seen key (r # rs) =
     (if key r \<in> set seen then first_occurrences seen key rs
      else r # first_occurrences (key r # seen) key rs)"

definition drop_duplicates :: "'f table \<Rightarrow> string \<Rightarrow> 'f row list" where
  "drop_duplicates d c = first_occurrences [] (\<lambda>r. cell_at r c) (rows d)"

subsection \<open>Dictionaries, the graph and the state of the manager\<close>

text \<open>
  A Python \<^verbatim>\<open>dict\<close> keeps its keys in insertion order (\<^verbatim>\<open>list(d.keys())[0]\<close> and the order
  of \<^verbatim>\<open>d.values()\<close> rely on it): an association list in which assigning to a key that is
  present replaces its value in place and a new key goes to the end.
\<close>

fun dict_set :: "'k \<Rightarrow> 'v \<Rightarrow> ('k \<times> 'v) list \<Rightarrow> ('k \<times> 'v) list" where
  "dict_set k v [] = [(k, v)]"
| "dict_set k v (kv # d) = (if fst kv = k then (fst kv, v) # d else kv # dict_set k v d)"

definition dict_update :: "('k \<times> 'v) list \<Rightarrow> ('k \<times> 'v) list \<Rightarrow> ('k \<times> 'v) list" where
  "dict_update d new = foldl (\<lambda>a kv. dict_set (fst kv) (snd kv) a) d new"

text \<open>An entity (and the attributes of a graph node) is a \<^verbatim>\<open>dict\<close> from field names to values.\<close>

type_synonym 'f entity = "(string \<times> 'f cell) list"

text \<open>
  \<^verbatim>\<open>nx.DiGraph\<close>: nodes by name with their attributes, and directed edges. \<^verbatim>\<open>add_node\<close>
  updates the attributes of a node that exists; \<^verbatim>\<open>add_edge\<close> creates the end points it does
  not find and adds the edge once.
\<close>

record 'f graph =
  nodes :: "(string \<times> 'f entity) list"
  edges :: "(string \<times> string) list"

definition empty_graph :: "'f graph" where
  "empty_graph = \<lparr>nodes = [], edges = []\<rparr>"

definition add_node :: "string \<Rightarrow> 'f entity \<Rightarrow> 'f graph \<Rightarrow> 'f graph" where
  "add_node n attrs g =
     (case map_of (nodes g) n of
        None \<Rightarrow> g\<lparr>nodes := nodes g @ [(n, attrs)]\<rparr>
      | Some old \<Rightarrow> g\<lparr>nodes := dict_set n (dict_update old attrs) (nodes g)\<rparr>)"

definition has_node :: "'f graph \<Rightarrow> string \<Rightarrow> bool" where
  "has_node g n = (n \<in> fst ` set (nodes g))"

definition ensure_node :: "string \<Rightarrow> 'f graph \<Rightarrow> 'f graph" where
  "ensure_node n g = (if has_node g n then g else g\<lparr>nodes := nodes g @ [(n, [])]\<rparr>)"

definition add_edge :: "string \<Rightarrow> string \<Rightarrow> 'f graph \<Rightarrow> 'f graph" where
  "add_edge u v g =
     (let g' = ensure_node v (ensure_node u g)
      in if (u, v) \<in> set (edges g') then g' else g'\<lparr>edges := edges g' @ [(u, v)]\<rparr>)"

text \<open>The fields of \<^verbatim>\<open>DataManager\<close> that the in-memory operations read and write.\<close>

record 'f data_manager =
  df :: "'f table"
  graph :: "'f graph"
  departments :: "('f cell \<times> 'f entity) list"
  buildings :: "('f cell \<times> 'f entity) list"
  floors :: "('f cell \<times> 'f entity) list"
  rooms :: "('f cell \<times> 'f entity) list"
  required_columns :: "string list"

definition standard_columns :: "string list" where
  "standard_columns =
     [''department_id'', ''department_name'', ''building_id'', ''building_name'',
      ''floor_id'', ''floor_name'', ''room_id'', ''room_name'', ''room_type'',
      ''capacity'', ''x_coordinate'', ''y_coordinate'']"

definition optional_columns :: "string list" where
  "optional_columns =
     [''department_description'', ''building_description'', ''floor_description'',
      ''room_description'', ''room_facilities'', ''accessibility'']"

definition simple_format_columns :: "string list" where
  "simple_format_columns =
     [''type'', ''id'', ''name'', ''building_id'', ''description'', ''x'', ''y'']"

subsection \<open>Validation\<close>

text \<open>
  \<^verbatim>\<open>validate_csv\<close> returns \<^verbatim>\<open>(True, "")\<close>, here \<open>None\<close>, or \<^verbatim>\<open>(False, message)\<close>, here the
  message; it also assigns \<^verbatim>\<open>self.required_columns\<close>.
\<close>

definition is_simple_format :: "'f table \<Rightarrow> bool" where
  "is_simple_format d = list_all (\<lambda>col. col \<in> set (columns d)) simple_format_columns"

definition is_standard_format :: "'f table \<Rightarrow> bool" where
  "is_standard_format d = list_all (\<lambda>col. col \<in> set (columns d)) standard_columns"

definition id_columns :: "string list" where
  "id_columns = [''department_id'', ''building_id'', ''floor_id'', ''room_id'']"

definition validate_csv ::
  "'f table \<Rightarrow> 'f data_manager \<Rightarrow> 'f error option \<times> 'f data_manager" where
  "validate_csv d self =
     (if \<not> is_simple_format d \<and> \<not> is_standard_format d then (Some FormatNotRecognized, self)
      else
        let self' = self\<lparr>required_columns :=
                      (if is_simple_format d then simple_format_columns else standard_columns)\<rparr>;
            missing_columns = filter (\<lambda>col. col \<notin> set (columns d)) (required_columns self')
        in if missing_columns \<noteq> [] then (Some (MissingColumns missing_columns), self')
           else if is_standard_format d then
             (case find (\<lambda>id_col. \<not> distinct (column d id_col)) id_columns of
                Some id_col \<Rightarrow> (Some (DuplicateValues id_col (dupes (column d id_col))), self')
              | None \<Rightarrow> (None, self'))
           else if is_simple_format d \<and> \<not> distinct (column d ''id'') then
             (Some (DuplicateValues ''id'' (dupes (column d ''id''))), self')
           else (None, self'))"

subsection \<open>Import\<close>

text \<open>
  A \<^verbatim>\<open>for _, row in frame.iterrows()\<close> loop whose body may raise: the exception leaves the
  loop with the state as it was when the body started (each body below reads the row before
  it writes anything). \<open>iterrows body rows self\<close> runs the loop from the state \<open>self\<close>;
  \<open>next_row\<close> looks at what the body returned.
\<close>

fun iterrows :: "('s \<Rightarrow> 'r \<Rightarrow> 'e + 's) \<Rightarrow> 'r list \<Rightarrow> 's \<Rightarrow> 'e option \<times> 's"
  and next_row :: "('s \<Rightarrow> 'r \<Rightarrow> 'e + 's) \<Rightarrow> 'r list \<Rightarrow> 's \<Rightarrow> 'e + 's \<Rightarrow> 'e option \<times> 's"
where
  "iterrows body [] s = (None, s)"
| "iterrows body (r # rs) s = next_row body rs s (body s r)"
| "next_row body rs s (Inl e) = (Some e, s)"
| "next_row body rs s (Inr s') = iterrows body rs s'"

text \<open>Statements in sequence: the next one runs only when the one before did not raise.\<close>

fun and_then :: "'e option \<times> 's \<Rightarrow> ('s \<Rightarrow> 'e option \<times> 's) \<Rightarrow> 'e option \<times> 's" where
  "and_then (Some e, s) f = (Some e, s)"
| "and_then (None, s) f = f s"

fun in_sequence :: "('s \<Rightarrow> 'e option \<times> 's) list \<Rightarrow> 's \<Rightarrow> 'e option \<times> 's" where
  "in_sequence [] s = (None, s)"
| "in_sequence (f # fs) s = and_then (f s) (in_sequence fs)"

text \<open>
  The coordinate of a simple-format building, floor or room: \<^verbatim>\<open>float(raw)\<close> when \<^verbatim>\<open>raw\<close> is
  present, not missing and not blank and \<^verbatim>\<open>float\<close> accepts it; otherwise
  \<^verbatim>\<open>50 + (hash(ident) % 40)\<close>. Python's \<^verbatim>\<open>%\<close> with a positive divisor is \<open>mod\<close>.
\<close>

definition synthesized :: "'f py \<Rightarrow> 'f cell \<Rightarrow> 'f cell" where
  "synthesized py ident = Num (50 + py_hash py ident mod 40)"

definition py_float :: "'f py \<Rightarrow> 'f cell \<Rightarrow> 'f cell option" where
  "py_float py v =
     (case v of NaN \<Rightarrow> Some NaN | Str s \<Rightarrow> map_option Flt (float_of_str py s)
      | Num i \<Rightarrow> Some (Flt (float_of_int py i)) | Flt f \<Rightarrow> Some (Flt f))"

definition coordinate :: "'f py \<Rightarrow> 'f cell option \<Rightarrow> 'f cell \<Rightarrow> 'f cell" where
  "coordinate py raw ident =
     (case raw of
        None \<Rightarrow> synthesized py ident
      | Some v \<Rightarrow>
          if v \<noteq> NaN \<and> strip (py_str py v) \<noteq> [] then
            (case py_float py v of Some x \<Rightarrow> x | None \<Rightarrow> synthesized py ident)
          else synthesized py ident)"

text \<open>
  The names of the graph nodes, \<^verbatim>\<open>f"dept_{id}"\<close> and so on. The row bodies below read the
  row first: \<open>missing_key\<close> is the first of the subscripted columns (\<^verbatim>\<open>row[c]\<close>) that the
  frame does not have, in the order the body reads them.
\<close>

definition dept_node :: "'f py \<Rightarrow> 'f cell \<Rightarrow> string" where
  "dept_node py v = ''dept_'' @ py_str py v"

definition building_node :: "'f py \<Rightarrow> 'f cell \<Rightarrow> string" where
  "building_node py v = ''building_'' @ py_str py v"

definition floor_node :: "'f py \<Rightarrow> 'f cell \<Rightarrow> string" where
  "floor_node py v = ''floor_'' @ py_str py v"

definition room_node :: "'f py \<Rightarrow> 'f cell \<Rightarrow> string" where
  "room_node py v = ''room_'' @ py_str py v"

definition missing_key :: "string list \<Rightarrow> string list \<Rightarrow> string option" where
  "missing_key cols cs = find (\<lambda>c. c \<notin> set cols) cs"

text \<open>\<^verbatim>\<open>v if v else 'unknown'\<close>\<close>

definition or_unknown :: "'f py \<Rightarrow> 'f cell \<Rightarrow> 'f cell" where
  "or_unknown py v = (if truthy py v then v else Str ''unknown'')"

text \<open>\<^verbatim>\<open>list(d.keys())[0]\<close> under \<^verbatim>\<open>if d\<close>: the first key of a dictionary that is not empty.\<close>

definition first_key :: "('k \<times> 'v) list \<Rightarrow> 'k option" where
  "first_key d = (case d of [] \<Rightarrow> None | kv # _ \<Rightarrow> Some (fst kv))"

subsubsection \<open>The simple format\<close>

definition simple_department_row ::
  "'f py \<Rightarrow> string list \<Rightarrow> 'f data_manager \<Rightarrow> 'f row \<Rightarrow> 'f error + 'f data_manager" where
  "simple_department_row py cols self r =
     (case missing_key cols [''id'', ''name''] of
        Some c \<Rightarrow> Inl (KeyError c)
      | None \<Rightarrow>
          let dept_id = cell_at r ''id'';
              dept_name = cell_at r ''name'';
              dept_desc = row_get cols r ''description'' (Str []);
              g = add_node (dept_node py dept_id)
                    [(''type'', Str ''department''), (''name'', dept_name),
                     (''description'', dept_desc)] (graph self);
              g = add_edge ''root'' (dept_node py dept_id) g
          in Inr (self\<lparr>graph := g,
                departments := dict_set dept_id
                  [(''id'', dept_id), (''name'', dept_name), (''description'', dept_desc)]
                  (departments self)\<rparr>))"

definition simple_building_row ::
  "'f py \<Rightarrow> string list \<Rightarrow> 'f data_manager \<Rightarrow> 'f row \<Rightarrow> 'f error + 'f data_manager" where
  "simple_building_row py cols self r =
     (case missing_key cols [''id'', ''name''] of
        Some c \<Rightarrow> Inl (KeyError c)
      | None \<Rightarrow>
          let building_id = cell_at r ''id'';
              building_name = cell_at r ''name'';
              building_desc = row_get cols r ''description'' (Str []);
              dept_id = row_get cols r ''building_id'' (Str []);
              x_coord = coordinate py (row_get_opt cols r ''x'') building_id;
              y_coord = coordinate py (row_get_opt cols r ''y'') building_name;
              g = add_node (building_node py building_id)
                    [(''type'', Str ''building''), (''name'', building_name),
                     (''description'', building_desc), (''x'', x_coord), (''y'', y_coord)]
                    (graph self);
              g = (if truthy py dept_id \<and> has_node g (dept_node py dept_id)
                   then add_edge (dept_node py dept_id) (building_node py building_id) g
                   else add_edge ''root'' (building_node py building_id) g)
          in Inr (self\<lparr>graph := g,
                buildings := dict_set building_id
                  [(''id'', building_id), (''department_id'', or_unknown py dept_id),
                   (''name'', building_name), (''x'', x_coord), (''y'', y_coord),
                   (''description'', building_desc)]
                  (buildings self)\<rparr>))"

definition simple_floor_row ::
  "'f py \<Rightarrow> string list \<Rightarrow> 'f data_manager \<Rightarrow> 'f row \<Rightarrow> 'f error + 'f data_manager" where
  "simple_floor_row py cols self r =
     (case missing_key cols [''id'', ''name''] of
        Some c \<Rightarrow> Inl (KeyError c)
      | None \<Rightarrow>
          let floor_id = cell_at r ''id'';
              floor_name = cell_at r ''name'';
              floor_desc = row_get cols r ''description'' (Str []);
              building_id = row_get cols r ''building_id'' (Str []);
              x_coord = coordinate py (row_get_opt cols r ''x'') floor_id;
              y_coord = coordinate py (row_get_opt cols r ''y'') floor_name;
              g = add_node (floor_node py floor_id)
                    [(''type'', Str ''floor''), (''name'', floor_name),
                     (''description'', floor_desc), (''x'', x_coord), (''y'', y_coord)]
                    (graph self);
              g = (if truthy py building_id \<and> has_node g (building_node py building_id)
                   then add_edge (building_node py building_id) (floor_node py floor_id) g
                   else
                     (case first_key (buildings self) of
                        Some first_building \<Rightarrow>
                          add_edge (building_node py first_building) (floor_node py floor_id) g
                      | None \<Rightarrow> add_edge ''root'' (floor_node py floor_id) g))
          in Inr (self\<lparr>graph := g,
                floors := dict_set floor_id
                  [(''id'', floor_id), (''building_id'', or_unknown py building_id),
                   (''name'', floor_name), (''description'', floor_desc),
                   (''x'', x_coord), (''y'', y_coord)]
                  (floors self)\<rparr>))"

definition simple_room_row ::
  "'f py \<Rightarrow> string list \<Rightarrow> 'f data_manager \<Rightarrow> 'f row \<Rightarrow> 'f error + 'f data_manager" where
  "simple_room_row py cols self r =
     (case missing_key cols [''id'', ''name''] of
        Some c \<Rightarrow> Inl (KeyError c)
      | None \<Rightarrow>
          let room_id = cell_at r ''id'';
              room_name = cell_at r ''name'';
              room_desc = row_get cols r ''description'' (Str []);
              floor_id = row_get cols r ''building_id'' (Str []);
              room_type = Str ''generic'';
              capacity = Num 40;
              x_coord = coordinate py (row_get_opt cols r ''x'') room_id;
              y_coord = coordinate py (row_get_opt cols r ''y'') room_name;
              g = add_node (room_node py room_id)
                    [(''type'', Str ''room''), (''name'', room_name), (''room_type'', room_type),
                     (''description'', room_desc), (''capacity'', capacity),
                     (''x'', x_coord), (''y'', y_coord),
                     (''facilities'', Str []), (''accessibility'', Str [])]
                    (graph self);
              g = (if truthy py floor_id \<and> has_node g (floor_node py floor_id)
                   then add_edge (floor_node py floor_id) (room_node py room_id) g
                   else
                     (case first_key (floors self) of
                        Some first_floor \<Rightarrow>
                          add_edge (floor_node py first_floor) (room_node py room_id) g
                      | None \<Rightarrow>
                          (case first_key (buildings self) of
                             Some first_building \<Rightarrow>
                               add_edge (building_node py first_building) (room_node py room_id) g
                           | None \<Rightarrow> add_edge ''root'' (room_node py room_id) g)))
          in Inr (self\<lparr>graph := g,
                rooms := dict_set room_id
                  [(''id'', room_id), (''floor_id'', or_unknown py floor_id),
                   (''name'', room_name), (''type'', room_type), (''description'', room_desc),
                   (''capacity'', capacity), (''x'', x_coord), (''y'', y_coord),
                   (''facilities'', Str []), (''accessibility'', Str [])]
                  (rooms self)\<rparr>))"

text \<open>
  \<^verbatim>\<open>df[df['type'].str.lower() == t]\<close>. The accessor \<^verbatim>\<open>.str\<close> raises on a column that
  \<^verbatim>\<open>read_csv\<close> typed as numeric, which is a column with at least one row and no string in it;
  on a cell that is not a string \<^verbatim>\<open>.str.lower()\<close> gives a missing value, equal to no \<open>t\<close>.
\<close>

definition is_str :: "'f cell \<Rightarrow> bool" where
  "is_str v = (case v of Str s \<Rightarrow> True | _ \<Rightarrow> False)"

definition str_accessor_ok :: "'f cell list \<Rightarrow> bool" where
  "str_accessor_ok vs = (vs = [] \<or> list_ex is_str vs)"

definition has_type :: "string \<Rightarrow> 'f row \<Rightarrow> bool" where
  "has_type t r = (case cell_at r ''type'' of Str s \<Rightarrow> lower s = t | _ \<Rightarrow> False)"

definition rows_of_type :: "'f table \<Rightarrow> string \<Rightarrow> 'f row list" where
  "rows_of_type d t = filter (has_type t) (rows d)"

definition simple_rows_of ::
  "string \<Rightarrow> (string list \<Rightarrow> 'f data_manager \<Rightarrow> 'f row \<Rightarrow> 'f error + 'f data_manager) \<Rightarrow>
   'f table \<Rightarrow> 'f data_manager \<Rightarrow> 'f error option \<times> 'f data_manager" where
  "simple_rows_of t body d self = iterrows (body (columns d)) (rows_of_type d t) self"

definition process_simple_format ::
  "'f py \<Rightarrow> 'f table \<Rightarrow> 'f data_manager \<Rightarrow> 'f error option \<times> 'f data_manager" where
  "process_simple_format py d self =
     (if ''type'' \<notin> set (columns d) then (Some (KeyError ''type''), self)
      else if \<not> str_accessor_ok (column d ''type'') then (Some StrAccessorError, self)
      else
        in_sequence
          [simple_rows_of ''department'' (simple_department_row py) d,
           simple_rows_of ''building'' (simple_building_row py) d,
           simple_rows_of ''floor'' (simple_floor_row py) d,
           simple_rows_of ''room'' (simple_room_row py) d] self)"

subsubsection \<open>The standard format\<close>

definition standard_department_row ::
  "'f py \<Rightarrow> string list \<Rightarrow> 'f data_manager \<Rightarrow> 'f row \<Rightarrow> 'f error + 'f data_manager" where
  "standard_department_row py cols self r =
     (case missing_key cols [''department_id'', ''department_name''] of
        Some c \<Rightarrow> Inl (KeyError c)
      | None \<Rightarrow>
          let dept_id = cell_at r ''department_id'';
              dept_name = cell_at r ''department_name'';
              dept_desc = row_get cols r ''department_description'' (Str []);
              g = add_node (dept_node py dept_id)
                    [(''type'', Str ''department''), (''name'', dept_name),
                     (''description'', dept_desc)] (graph self);
              g = add_edge ''root'' (dept_node py dept_id) g
          in Inr (self\<lparr>graph := g,
                departments := dict_set dept_id
                  [(''id'', dept_id), (''name'', dept_name), (''description'', dept_desc)]
                  (departments self)\<rparr>))"

definition standard_building_row ::
  "'f py \<Rightarrow> string list \<Rightarrow> 'f data_manager \<Rightarrow> 'f row \<Rightarrow> 'f error + 'f data_manager" where
  "standard_building_row py cols self r =
     (case missing_key cols [''department_id'', ''building_id'', ''building_name''] of
        Some c \<Rightarrow> Inl (KeyError c)
      | None \<Rightarrow>
          let dept_id = cell_at r ''department_id'';
              building_id = cell_at r ''building_id'';
              building_name = cell_at r ''building_name'';
              building_desc = row_get cols r ''building_description'' (Str []);
              g = add_node (building_node py building_id)
                    [(''type'', Str ''building''), (''name'', building_name),
                     (''description'', building_desc)] (graph self);
              g = add_edge (dept_node py dept_id) (building_node py building_id) g
          in Inr (self\<lparr>graph := g,
                buildings := dict_set building_id
                  [(''id'', building_id), (''department_id'', dept_id),
                   (''name'', building_name), (''description'', building_desc)]
                  (buildings self)\<rparr>))"

definition standard_floor_row ::
  "'f py \<Rightarrow> string list \<Rightarrow> 'f data_manager \<Rightarrow> 'f row \<Rightarrow> 'f error + 'f data_manager" where
  "standard_floor_row py cols self r =
     (case missing_key cols [''building_id'', ''floor_id'', ''floor_name''] of
        Some c \<Rightarrow> Inl (KeyError c)
      | None \<Rightarrow>
          let building_id = cell_at r ''building_id'';
              floor_id = cell_at r ''floor_id'';
              floor_name = cell_at r ''floor_name'';
              floor_desc = row_get cols r ''floor_description'' (Str []);
              g = add_node (floor_node py floor_id)
                    [(''type'', Str ''floor''), (''name'', floor_name),
                     (''description'', floor_desc)] (graph self);
              g = add_edge (building_node py building_id) (floor_node py floor_id) g
          in Inr (self\<lparr>graph := g,
                floors := dict_set floor_id
                  [(''id'', floor_id), (''building_id'', building_id),
                   (''name'', floor_name), (''description'', floor_desc)]
                  (floors self)\<rparr>))"

definition standard_room_row ::
  "'f py \<Rightarrow> string list \<Rightarrow> 'f data_manager \<Rightarrow> 'f row \<Rightarrow> 'f error + 'f data_manager" where
  "standard_room_row py cols self r =
     (case missing_key cols
             [''floor_id'', ''room_id'', ''room_name'', ''room_type'', ''capacity'',
              ''x_coordinate'', ''y_coordinate''] of
        Some c \<Rightarrow> Inl (KeyError c)
      | None \<Rightarrow>
          let floor_id = cell_at r ''floor_id'';
              room_id = cell_at r ''room_id'';
              room_name = cell_at r ''room_name'';
              room_type = cell_at r ''room_type'';
              room_desc = row_get cols r ''room_description'' (Str []);
              capacity = cell_at r ''capacity'';
              x_coord = cell_at r ''x_coordinate'';
              y_coord = cell_at r ''y_coordinate'';
              facilities = row_get cols r ''room_facilities'' (Str []);
              accessibility = row_get cols r ''accessibility'' (Str []);
              g = add_node (room_node py room_id)
                    [(''type'', Str ''room''), (''name'', room_name), (''room_type'', room_type),
                     (''description'', room_desc), (''capacity'', capacity),
                     (''x'', x_coord), (''y'', y_coord),
                     (''facilities'', facilities), (''accessibility'', accessibility)]
                    (graph self);
              g = add_edge (floor_node py floor_id) (room_node py room_id) g
          in Inr (self\<lparr>graph := g,
                rooms := dict_set room_id
                  [(''id'', room_id), (''floor_id'', floor_id), (''name'', room_name),
                   (''type'', room_type), (''description'', room_desc),
                   (''capacity'', capacity), (''x'', x_coord), (''y'', y_coord),
                   (''facilities'', facilities), (''accessibility'', accessibility)]
                  (rooms self)\<rparr>))"

text \<open>\<^verbatim>\<open>for _, row in df.drop_duplicates(c).iterrows()\<close>; \<^verbatim>\<open>drop_duplicates\<close> raises
  \<^verbatim>\<open>KeyError\<close> on a column the frame does not have.\<close>

definition first_rows_of ::
  "string \<Rightarrow> (string list \<Rightarrow> 'f data_manager \<Rightarrow> 'f row \<Rightarrow> 'f error + 'f data_manager) \<Rightarrow>
   'f table \<Rightarrow> 'f data_manager \<Rightarrow> 'f error option \<times> 'f data_manager" where
  "first_rows_of c body d self =
     (if c \<in> set (columns d) then iterrows (body (columns d)) (drop_duplicates d c) self
      else (Some (KeyError c), self))"

definition all_rows_of ::
  "(string list \<Rightarrow> 'f data_manager \<Rightarrow> 'f row \<Rightarrow> 'f error + 'f data_manager) \<Rightarrow>
   'f table \<Rightarrow> 'f data_manager \<Rightarrow> 'f error option \<times> 'f data_manager" where
  "all_rows_of body d self = iterrows (body (columns d)) (rows d) self"

definition process_standard_format ::
  "'f py \<Rightarrow> 'f table \<Rightarrow> 'f data_manager \<Rightarrow> 'f error option \<times> 'f data_manager" where
  "process_standard_format py d self =
     in_sequence
       [first_rows_of ''department_id'' (standard_department_row py) d,
        first_rows_of ''building_id'' (standard_building_row py) d,
        first_rows_of ''floor_id'' (standard_floor_row py) d,
        all_rows_of (standard_room_row py) d] self"

subsubsection \<open>The entry points\<close>

text \<open>
  \<^verbatim>\<open>_process_data\<close> stores the frame, resets the graph and the four mappings, adds the root
  node and takes the simple path exactly when the frame has a column \<^verbatim>\<open>type\<close>. (The
  state is the last argument of the operations here, so that they compose.)
\<close>

definition root_graph :: "'f graph" where
  "root_graph = add_node ''root'' [(''type'', Str ''root''), (''name'', Str ''Campus'')] empty_graph"

definition reset :: "'f table \<Rightarrow> 'f data_manager \<Rightarrow> 'f data_manager" where
  "reset d self =
     self\<lparr>df := d, graph := root_graph, departments := [], buildings := [],
          floors := [], rooms := []\<rparr>"

definition process_data ::
  "'f py \<Rightarrow> 'f table \<Rightarrow> 'f data_manager \<Rightarrow> 'f error option \<times> 'f data_manager" where
  "process_data py d self =
     (if ''type'' \<in> set (columns d) then process_simple_format py d (reset d self)
      else process_standard_format py d (reset d self))"

text \<open>
  \<^verbatim>\<open>import_from_csv\<close> and \<^verbatim>\<open>import_from_file\<close> have the same body after \<^verbatim>\<open>read_csv\<close>:
  validation, then \<^verbatim>\<open>_process_data\<close> when the frame is valid. The result \<open>Some e\<close> is the
  \<^verbatim>\<open>ValueError("Error importing CSV data: ...")\<close> that wraps the validation message or the
  exception \<open>e\<close>; the state returned with it is the state the object is left in.
\<close>

definition import_from_csv ::
  "'f py \<Rightarrow> 'f table \<Rightarrow> 'f data_manager \<Rightarrow> 'f error option \<times> 'f data_manager" where
  "import_from_csv py d self = and_then (validate_csv d self) (process_data py d)"

subsection \<open>Export\<close>

text \<open>
  \<^verbatim>\<open>export_to_csv\<close> returns the text of a frame; the model returns that frame. When the
  stored frame is in the standard format and the simple format is asked for, the frame is
  built from the four mappings, one record per entity; \<^verbatim>\<open>e['name']\<close> raises \<^verbatim>\<open>KeyError\<close> on
  an entity without a name.
\<close>

definition entity_get :: "'f entity \<Rightarrow> string \<Rightarrow> 'f cell \<Rightarrow> 'f cell" where
  "entity_get e k dflt = (case map_of e k of Some v \<Rightarrow> v | None \<Rightarrow> dflt)"

definition simple_record ::
  "string \<Rightarrow> string option \<Rightarrow> 'f cell \<times> 'f entity \<Rightarrow> 'f error + 'f row" where
  "simple_record t parent kv =
     (case map_of (snd kv) ''name'' of
        None \<Rightarrow> Inl (KeyError ''name'')
      | Some name \<Rightarrow>
          Inr [(''type'', Str t), (''id'', fst kv), (''name'', name),
               (''building_id'',
                  (case parent of None \<Rightarrow> Str [] | Some k \<Rightarrow> entity_get (snd kv) k (Str []))),
               (''description'', entity_get (snd kv) ''description'' (Str []))])"

fun collect :: "('a \<Rightarrow> 'e + 'b) \<Rightarrow> 'a list \<Rightarrow> 'e + 'b list" where
  "collect f [] = Inr []"
| "collect f (x # xs) =
     (case f x of
        Inl e \<Rightarrow> Inl e
      | Inr y \<Rightarrow> (case collect f xs of Inl e \<Rightarrow> Inl e | Inr ys \<Rightarrow> Inr (y # ys)))"

definition simple_data :: "'f data_manager \<Rightarrow> 'f error + 'f row list" where
  "simple_data self =
     collect (\<lambda>tkv. simple_record (fst tkv) (fst (snd tkv)) (snd (snd tkv)))
       (map (\<lambda>kv. (''department'', None, kv)) (departments self) @
        map (\<lambda>kv. (''building'', Some ''department_id'', kv)) (buildings self) @
        map (\<lambda>kv. (''floor'', Some ''building_id'', kv)) (floors self) @
        map (\<lambda>kv. (''room'', Some ''floor_id'', kv)) (rooms self))"

text \<open>\<^verbatim>\<open>pd.DataFrame(records)\<close>: the columns are the keys of the records, none for no record.\<close>

definition frame_of_records :: "'f row list \<Rightarrow> 'f table" where
  "frame_of_records rs =
     \<lparr>columns = (case rs of [] \<Rightarrow> [] | r # _ \<Rightarrow> map fst r), rows = rs\<rparr>"

definition export_to_csv :: "'f data_manager \<Rightarrow> string \<Rightarrow> 'f error + 'f table" where
  "export_to_csv self format_type =
     (let is_simple_format =
            (format_type = ''simple'' \<or>
             (format_type = ''auto'' \<and> ''type'' \<in> set (columns (df self))))
      in if empty_frame (df self) then
           (if is_simple_format then Inr \<lparr>columns = simple_format_columns, rows = []\<rparr>
            else Inr \<lparr>columns = standard_columns @ optional_columns, rows = []\<rparr>)
         else if is_simple_format then
           (if ''type'' \<in> set (columns (df self)) then Inr (df self)
            else (case simple_data self of
                    Inl e \<Rightarrow> Inl e
                  | Inr rs \<Rightarrow> Inr (frame_of_records rs)))
         else
           (if ''type'' \<in> set (columns (df self)) then Inr (df self) else Inr (df self)))"

subsection \<open>Search\<close>

text \<open>
  \<^verbatim>\<open>matches_query(item, key)\<close> is
  \<^verbatim>\<open>key in item and item[key] and query in str(item[key]).lower()\<close>. The result of \<^verbatim>\<open>search\<close>
  is a dictionary with the four keys below, each with the list of matching entities in the
  order of the mapping.
\<close>

definition matches_query :: "'f py \<Rightarrow> string \<Rightarrow> 'f entity \<Rightarrow> string \<Rightarrow> bool" where
  "matches_query py query item key =
     (case map_of item key of
        None \<Rightarrow> False
      | Some v \<Rightarrow> truthy py v \<and> contains query (lower (py_str py v)))"

definition search ::
  "'f py \<Rightarrow> 'f data_manager \<Rightarrow> string \<Rightarrow> (string \<times> 'f entity list) list" where
  "search py self query =
     (if query = [] then
        [(''departments'', []), (''buildings'', []), (''floors'', []), (''rooms'', [])]
      else
        let query = lower query
        in [(''departments'',
               filter (\<lambda>dept. matches_query py query dept ''name'' \<or>
                               matches_query py query dept ''description'')
                 (map snd (departments self))),
            (''buildings'',
               filter (\<lambda>building. matches_query py query building ''name'' \<or>
                                   matches_query py query building ''description'')
                 (map snd (buildings self))),
            (''floors'',
               filter (\<lambda>floor. matches_query py query floor ''name'' \<or>
                                matches_query py query floor ''description'')
                 (map snd (floors self))),
            (''rooms'',
               filter (\<lambda>room. matches_query py query room ''name'' \<or>
                               matches_query py query room ''type'' \<or>
                               matches_query py query room ''description'' \<or>
                               matches_query py query room ''facilities'')
                 (map snd (rooms self)))])"

text \<open>
  The search box of \<^verbatim>\<open>components/search.py\<close>: it calls \<^verbatim>\<open>search\<close> only for a query of at
  least two characters and shows a message otherwise (\<open>None\<close>).
\<close>

definition search_interface ::
  "'f py \<Rightarrow> 'f data_manager \<Rightarrow> string \<Rightarrow> (string \<times> 'f entity list) list option" where
  "search_interface py self search_query =
     (if search_query \<noteq> [] \<and> 2 \<le> length search_query then Some (search py self search_query)
      else None)"

subsection \<open>Fixtures\<close>

text \<open>
  A concrete set of primitives for the worked examples: floats are integers, \<^verbatim>\<open>float\<close>
  accepts the strings \<open>''1''\<close> and \<open>''2''\<close> only, and \<^verbatim>\<open>hash\<close> is the length of the printed value.
\<close>

definition py0 :: "int py" where
  "py0 = \<lparr>py_hash = (\<lambda>v. int (length (py_str
              \<lparr>py_hash = (\<lambda>_. 0), float_of_int = id, float_of_str = (\<lambda>_. None),
               str_of_float = str_int, float_is_zero = (\<lambda>f. f = 0)\<rparr> v))),
           float_of_int = id,
           float_of_str = (\<lambda>s. if s = ''1'' then Some 1 else if s = ''2'' then Some 2 else None),
           str_of_float = str_int,
           float_is_zero = (\<lambda>f. f = 0)\<rparr>"

text \<open>The manager as \<^verbatim>\<open>__init__\<close> leaves it when no database is reachable.\<close>

definition empty_manager :: "'f data_manager" where
  "empty_manager =
     \<lparr>df = \<lparr>columns = [], rows = []\<rparr>, graph = empty_graph, departments = [], buildings = [],
      floors = [], rooms = [], required_columns = []\<rparr>"

text \<open>A simple-format campus: one department, one building, one floor, one room, no
  descriptions and no coordinates.\<close>

definition tech_hall :: "int row" where
  "tech_hall =
     [(''type'', Str ''building''), (''id'', Str ''B1''), (''name'', Str ''Tech Hall''),
      (''building_id'', Str ''D1'')]"

definition simple_campus :: "int table" where
  "simple_campus =
     \<lparr>columns = simple_format_columns,
      rows =
        [[(''type'', Str ''department''), (''id'', Str ''D1''), (''name'', Str ''CS'')],
         tech_hall,
         [(''type'', Str ''floor''), (''id'', Str ''F1''), (''name'', Str ''Floor 1''),
          (''building_id'', Str ''B1'')],
         [(''type'', Str ''room''), (''id'', Str ''R1''), (''name'', Str ''Lab A''),
          (''building_id'', Str ''F1'')]]\<rparr>"

text \<open>The same campus with a second building, and the floor naming a building \<open>BX\<close> that
  is not in the table.\<close>

definition dangling_floor :: "int row" where
  "dangling_floor =
     [(''type'', Str ''floor''), (''id'', Str ''F1''), (''name'', Str ''Floor 1''),
      (''building_id'', Str ''BX'')]"

definition dangling_campus :: "int table" where
  "dangling_campus =
     \<lparr>columns = simple_format_columns,
      rows =
        [[(''type'', Str ''department''), (''id'', Str ''D1''), (''name'', Str ''CS'')],
         [(''type'', Str ''building''), (''id'', Str ''B1''), (''name'', Str ''Tech Hall''),
          (''building_id'', Str ''D1'')],
         [(''type'', Str ''building''), (''id'', Str ''B2''), (''name'', Str ''Annex''),
          (''building_id'', Str ''D1'')],
         dangling_floor]\<rparr>"



text \<open>Standard-format rows: a room with its department, building and floor.\<close>

definition standard_row :: "string \<Rightarrow> string \<Rightarrow> string \<Rightarrow> string \<Rightarrow> string \<Rightarrow> int row" where
  "standard_row d b f r n =
     [(''department_id'', Str d), (''department_name'', Str ''Computer Science''),
      (''building_id'', Str b), (''building_name'', Str ''Tech Hall''),
      (''floor_id'', Str f), (''floor_name'', Str ''Floor 1''),
      (''room_id'', Str r), (''room_name'', Str n), (''room_type'', Str ''lab''),
      (''capacity'', Num 30), (''x_coordinate'', Num 10), (''y_coordinate'', Num 20)]"

definition standard_one_room :: "int table" where
  "standard_one_room =
     \<lparr>columns = standard_columns, rows = [standard_row ''D1'' ''B1'' ''F1'' ''R1'' ''CS Lab 1'']\<rparr>"

text \<open>Two rooms on the same floor: the ancestor columns repeat.\<close>

definition standard_two_rooms :: "int table" where
  "standard_two_rooms =
     \<lparr>columns = standard_columns,
      rows = [standard_row ''D1'' ''B1'' ''F1'' ''R1'' ''CS Lab 1'',
              standard_row ''D1'' ''B1'' ''F1'' ''R2'' ''CS Lab 2'']\<rparr>"

text \<open>A standard-format frame with an extra column \<^verbatim>\<open>type\<close>.\<close>

definition standard_with_type :: "int table" where
  "standard_with_type =
     \<lparr>columns = standard_columns @ [''type''],
      rows = [standard_row ''D1'' ''B1'' ''F1'' ''R1'' ''CS Lab 1'' @ [(''type'', Str ''room'')]]\<rparr>"

text \<open>A frame with the columns of both formats and the same \<^verbatim>\<open>id\<close> in its two rows.\<close>

definition both_formats :: "int table" where
  "both_formats =
     \<lparr>columns = standard_columns @ [''type'', ''id'', ''name'', ''description'', ''x'', ''y''],
      rows =
        [standard_row ''D1'' ''B1'' ''F1'' ''R1'' ''CS Lab 1'' @
           [(''type'', Str ''department''), (''id'', Str ''X''), (''name'', Str ''First'')],
         standard_row ''D2'' ''B2'' ''F2'' ''R2'' ''CS Lab 2'' @
           [(''type'', Str ''department''), (''id'', Str ''X''), (''name'', Str ''Second'')]]\<rparr>"

text \<open>Two rooms with the same \<^verbatim>\<open>room_id\<close> under different departments, buildings and floors.\<close>

definition duplicate_rooms :: "int table" where
  "duplicate_rooms =
     \<lparr>columns = standard_columns,
      rows = [standard_row ''D1'' ''B1'' ''F1'' ''R1'' ''CS Lab 1'',
              standard_row ''D2'' ''B2'' ''F2'' ''R1'' ''CS Lab 2'']\<rparr>"

text \<open>The two department rows of \<open>both_formats\<close> in a frame with the simple columns only.\<close>

definition same_id_simple :: "int table" where
  "same_id_simple =
     \<lparr>columns = simple_format_columns,
      rows =
        [[(''type'', Str ''department''), (''id'', Str ''X''), (''name'', Str ''First'')],
         [(''type'', Str ''department''), (''id'', Str ''X''), (''name'', Str ''Second'')]]\<rparr>"

text \<open>A frame with the columns of both formats and two building rows of the same \<^verbatim>\<open>id\<close>: the
  first has no \<^verbatim>\<open>x\<close>, the second has \<^verbatim>\<open>x = 7\<close>.\<close>

definition same_id_buildings :: "int table" where
  "same_id_buildings =
     \<lparr>columns = standard_columns @ [''type'', ''id'', ''name'', ''description'', ''x'', ''y''],
      rows =
        [standard_row ''D1'' ''B1'' ''F1'' ''R1'' ''CS Lab 1'' @
           [(''type'', Str ''building''), (''id'', Str ''B''), (''name'', Str ''First'')],
         standard_row ''D2'' ''B2'' ''F2'' ''R2'' ''CS Lab 2'' @
           [(''type'', Str ''building''), (''id'', Str ''B''), (''name'', Str ''Second''),
            (''x'', Num 7)]]\<rparr>"

text \<open>A building without a name and without coordinates, and the primitives of \<open>py0\<close> at
  another call of the same session: \<^verbatim>\<open>hash\<close> is the same on every value that is not missing
  and differs on the NaN object.\<close>

definition nameless_building :: "int table" where
  "nameless_building =
     \<lparr>columns = simple_format_columns,
      rows = [[(''type'', Str ''building''), (''id'', Str ''B1'')]]\<rparr>"

definition py0_other_nan :: "int py" where
  "py0_other_nan = py0\<lparr>py_hash := (py_hash py0)(NaN := 7)\<rparr>"

text \<open>The state after importing a frame into the empty manager.\<close>

definition loaded :: "int table \<Rightarrow> int data_manager" where
  "loaded d = snd (import_from_csv py0 d empty_manager)"

subsection \<open>Notions used to state the properties\<close>

text \<open>The duplicate check over a list of identifier columns: the first column, in the
  order given, that holds a value twice is reported with its duplicated values.\<close>

definition duplicate_check :: "'f table \<Rightarrow> string list \<Rightarrow> 'f error option" where
  "duplicate_check d cs =
     (case find (\<lambda>c. \<not> distinct (column d c)) cs of
        Some c \<Rightarrow> Some (DuplicateValues c (dupes (column d c)))
      | None \<Rightarrow> None)"

text \<open>The header-only frame that \<^verbatim>\<open>export_to_csv\<close> writes for an empty store in the standard
  format.\<close>

definition standard_header :: "'f table" where
  "standard_header = \<lparr>columns = standard_columns @ optional_columns, rows = []\<rparr>"

text \<open>
  A raw coordinate cell that cannot be used: the column is absent, the cell is missing
  (a blank cell of the file), it prints as blank, or \<^verbatim>\<open>float\<close> rejects it. \<open>synthesized_for\<close>
  says that an entity has the synthesized \<open>x\<close> wherever the row gives no usable one and its
  \<^verbatim>\<open>id\<close> is not missing, and the synthesized \<open>y\<close> wherever the row gives no usable one and its
  \<^verbatim>\<open>name\<close> is not missing.
\<close>

definition unusable :: "'f py \<Rightarrow> 'f cell option \<Rightarrow> bool" where
  "unusable py raw =
     (case raw of
        None \<Rightarrow> True
      | Some v \<Rightarrow> v = NaN \<or> strip (py_str py v) = [] \<or> py_float py v = None)"

definition synthesized_for :: "'f py \<Rightarrow> string list \<Rightarrow> 'f row \<Rightarrow> 'f entity \<Rightarrow> bool" where
  "synthesized_for py cols r e =
     ((unusable py (row_get_opt cols r ''x'') \<and> cell_at r ''id'' \<noteq> NaN \<longrightarrow>
         map_of e ''x'' = Some (Num (50 + py_hash py (cell_at r ''id'') mod 40)))
      \<and> (unusable py (row_get_opt cols r ''y'') \<and> cell_at r ''name'' \<noteq> NaN \<longrightarrow>
         map_of e ''y'' = Some (Num (50 + py_hash py (cell_at r ''name'') mod 40))))"

text \<open>
  Agreement of a mapping with the graph. \<open>linked\<close>: every child records a parent identifier
  under \<open>field\<close>, and the graph has the edge from that parent's node to the child's node.
  \<open>linked_if_resolved\<close>: the same, for the children whose recorded parent is not the
  placeholder \<^verbatim>\<open>unknown\<close> and has the node name of a key of the parents' mapping.
  \<open>nodes_present\<close>: every key of a mapping has its node in the graph.
\<close>

definition linked ::
  "('f cell \<Rightarrow> string) \<Rightarrow> ('f cell \<Rightarrow> string) \<Rightarrow> string \<Rightarrow>
   ('f cell \<times> 'f entity) list \<Rightarrow> 'f graph \<Rightarrow> bool" where
  "linked parent_node child_node field children g =
     (\<forall>k e. (k, e) \<in> set children \<longrightarrow>
        (\<exists>p. map_of e field = Some p \<and> (parent_node p, child_node k) \<in> set (edges g)))"

definition linked_if_resolved ::
  "('f cell \<Rightarrow> string) \<Rightarrow> ('f cell \<Rightarrow> string) \<Rightarrow> string \<Rightarrow>
   ('f cell \<times> 'f entity) list \<Rightarrow> ('f cell \<times> 'f entity) list \<Rightarrow> 'f graph \<Rightarrow> bool" where
  "linked_if_resolved parent_node child_node field parents children g =
     (\<forall>k e. (k, e) \<in> set children \<longrightarrow>
        (\<exists>p. map_of e field = Some p \<and>
           (p \<noteq> Str ''unknown'' \<and> parent_node p \<in> parent_node ` fst ` set parents \<longrightarrow>
              (parent_node p, child_node k) \<in> set (edges g))))"

definition nodes_present ::
  "('f cell \<Rightarrow> string) \<Rightarrow> ('f cell \<times> 'f entity) list \<Rightarrow> 'f graph \<Rightarrow> bool" where
  "nodes_present node_of m g = (\<forall>k. k \<in> fst ` set m \<longrightarrow> has_node g (node_of k))"

definition simple_links :: "'f py \<Rightarrow> 'f data_manager \<Rightarrow> bool" where
  "simple_links py s =
     (nodes_present (dept_node py) (departments s) (graph s)
      \<and> nodes_present (building_node py) (buildings s) (graph s)
      \<and> nodes_present (floor_node py) (floors s) (graph s)
      \<and> linked_if_resolved (dept_node py) (building_node py) ''department_id''
            (departments s) (buildings s) (graph s)
      \<and> linked_if_resolved (building_node py) (floor_node py) ''building_id''
            (buildings s) (floors s) (graph s)
      \<and> linked_if_resolved (floor_node py) (room_node py) ''floor_id''
            (floors s) (rooms s) (graph s))"

definition standard_links :: "'f py \<Rightarrow> 'f data_manager \<Rightarrow> bool" where
  "standard_links py s =
     (linked (dept_node py) (building_node py) ''department_id'' (buildings s) (graph s)
      \<and> linked (building_node py) (floor_node py) ''building_id'' (floors s) (graph s)
      \<and> linked (floor_node py) (room_node py) ''floor_id'' (rooms s) (graph s))"


section \<open>Properties\<close>

subsection \<open>Loops and sequences\<close>

lemma iterrows_inv:
  assumes "iterrows body rs s = (e, s')" and "P s"
    and "\<And>s r s'. P s \<Longrightarrow> r \<in> set rs \<Longrightarrow> body s r = Inr s' \<Longrightarrow> P s'"
  shows "P s'"
  using assms
proof (induction rs arbitrary: s)
  case Nil
  then show ?case by simp
next
  case (Cons r rs)
  show ?case
  proof (cases "body s r")
    case (Inl a)
    with Cons.prems show ?thesis by simp
  next
    case (Inr s1)
    with Cons.prems have run: "iterrows body rs s1 = (e, s')" and "P s1" by auto
    show ?thesis
      by (rule Cons.IH [OF run \<open>P s1\<close>]) (auto intro: Cons.prems(3))
  qed
qed


lemma and_then_None:
  "and_then res f = (None, s') \<Longrightarrow> \<exists>s1. res = (None, s1) \<and> f s1 = (None, s')"
  by (cases res; cases "fst res") auto

lemma and_then_inv:
  assumes "and_then res f = (e, s')" and "P (snd res)"
    and "\<And>s e s'. P s \<Longrightarrow> f s = (e, s') \<Longrightarrow> P s'"
  shows "P s'"
  using assms by (cases res; cases "fst res") auto

lemma in_sequence_inv:
  assumes "in_sequence fs s = (e, s')" and "P s"
    and "\<And>f s e s'. f \<in> set fs \<Longrightarrow> P s \<Longrightarrow> f s = (e, s') \<Longrightarrow> P s'"
  shows "P s'"
  using assms
proof (induction fs arbitrary: s)
  case Nil
  then show ?case by simp
next
  case (Cons f fs)
  obtain e1 s1 where f: "f s = (e1, s1)" by (cases "f s")
  with Cons.prems(2,3) have p: "P s1" by auto
  show ?case
  proof (cases e1)
    case None
    with f Cons.prems(1) have "in_sequence fs s1 = (e, s')" by simp
    from Cons.IH [OF this p] Cons.prems(3) show ?thesis by auto
  next
    case (Some a)
    with f Cons.prems(1) p show ?thesis by simp
  qed
qed

lemma in_sequence4:
  assumes "in_sequence [f1, f2, f3, f4] s = (None, s')"
  shows "\<exists>s1 s2 s3. f1 s = (None, s1) \<and> f2 s1 = (None, s2) \<and> f3 s2 = (None, s3)
                    \<and> f4 s3 = (None, s')"
proof -
  from assms have "and_then (f1 s) (in_sequence [f2, f3, f4]) = (None, s')" by simp
  from and_then_None [OF this] obtain s1 where
    1: "f1 s = (None, s1)" "in_sequence [f2, f3, f4] s1 = (None, s')" by blast
  from 1(2) have "and_then (f2 s1) (in_sequence [f3, f4]) = (None, s')" by simp
  from and_then_None [OF this] obtain s2 where
    2: "f2 s1 = (None, s2)" "in_sequence [f3, f4] s2 = (None, s')" by blast
  from 2(2) have "and_then (f3 s2) (in_sequence [f4]) = (None, s')" by simp
  from and_then_None [OF this] obtain s3 where
    3: "f3 s2 = (None, s3)" "in_sequence [f4] s3 = (None, s')" by blast
  from 3(2) have "and_then (f4 s3) (in_sequence []) = (None, s')" by simp
  from and_then_None [OF this] have "f4 s3 = (None, s')" by auto
  with 1 2 3 show ?thesis by blast
qed

lemmas row_defs =
  simple_department_row_def simple_building_row_def simple_floor_row_def simple_room_row_def
  standard_department_row_def standard_building_row_def standard_floor_row_def
  standard_room_row_def

lemmas loop_defs = simple_rows_of_def first_rows_of_def all_rows_of_def

lemma rows_keep_frame:
  "simple_department_row py cols s r = Inr s' \<Longrightarrow> df s' = df s \<and> required_columns s' = required_columns s"
  "simple_building_row py cols s r = Inr s' \<Longrightarrow> df s' = df s \<and> required_columns s' = required_columns s"
  "simple_floor_row py cols s r = Inr s' \<Longrightarrow> df s' = df s \<and> required_columns s' = required_columns s"
  "simple_room_row py cols s r = Inr s' \<Longrightarrow> df s' = df s \<and> required_columns s' = required_columns s"
  "standard_department_row py cols s r = Inr s' \<Longrightarrow> df s' = df s \<and> required_columns s' = required_columns s"
  "standard_building_row py cols s r = Inr s' \<Longrightarrow> df s' = df s \<and> required_columns s' = required_columns s"
  "standard_floor_row py cols s r = Inr s' \<Longrightarrow> df s' = df s \<and> required_columns s' = required_columns s"
  "standard_room_row py cols s r = Inr s' \<Longrightarrow> df s' = df s \<and> required_columns s' = required_columns s"
  by (auto simp add: row_defs Let_def split: option.splits)

lemma iterrows_keeps:
  assumes "iterrows body rs s = (e, s')"
    and "\<And>s r s'. body s r = Inr s' \<Longrightarrow> f s' = f s"
  shows "f s' = f s"
  by (rule iterrows_inv [OF assms(1), of "\<lambda>x. f x = f s"]) (simp_all add: assms(2))

lemma simple_rows_of_keeps:
  assumes "simple_rows_of t body d s = (e, s')"
    and "\<And>s r s'. body (columns d) s r = Inr s' \<Longrightarrow> f s' = f s"
  shows "f s' = f s"
  using assms(1) unfolding simple_rows_of_def by (rule iterrows_keeps) (rule assms(2))

lemma all_rows_of_keeps:
  assumes "all_rows_of body d s = (e, s')"
    and "\<And>s r s'. body (columns d) s r = Inr s' \<Longrightarrow> f s' = f s"
  shows "f s' = f s"
  using assms(1) unfolding all_rows_of_def by (rule iterrows_keeps) (rule assms(2))

lemma first_rows_of_keeps:
  assumes "first_rows_of c body d s = (e, s')"
    and "\<And>s r s'. body (columns d) s r = Inr s' \<Longrightarrow> f s' = f s"
  shows "f s' = f s"
proof (cases "c \<in> set (columns d)")
  case True
  with assms(1) have "iterrows (body (columns d)) (drop_duplicates d c) s = (e, s')"
    by (simp add: first_rows_of_def)
  then show ?thesis by (rule iterrows_keeps) (rule assms(2))
next
  case False
  with assms(1) show ?thesis by (simp add: first_rows_of_def)
qed

lemma in_sequence_keeps:
  assumes "in_sequence fs s = (e, s')"
    and "\<And>g s e s'. g \<in> set fs \<Longrightarrow> g s = (e, s') \<Longrightarrow> f s' = f s"
  shows "f s' = f s"
proof (rule in_sequence_inv [OF assms(1), of "\<lambda>x. f x = f s"])
  show "f s = f s" by simp
next
  fix g s1 e1 s2
  assume "g \<in> set fs" "f s1 = f s" "g s1 = (e1, s2)"
  with assms(2) [of g s1 e1 s2] show "f s2 = f s" by simp
qed

lemma process_standard_keeps_frame:
  assumes "process_standard_format py d s = (e, s')"
  shows "df s' = df s"
proof (rule in_sequence_keeps [OF assms [unfolded process_standard_format_def]])
  fix g s1 e1 s2
  assume g: "g \<in> set [first_rows_of ''department_id'' (standard_department_row py) d,
                        first_rows_of ''building_id'' (standard_building_row py) d,
                        first_rows_of ''floor_id'' (standard_floor_row py) d,
                        all_rows_of (standard_room_row py) d]"
    and run: "g s1 = (e1, s2)"
  from g consider "g = first_rows_of ''department_id'' (standard_department_row py) d"
    | "g = first_rows_of ''building_id'' (standard_building_row py) d"
    | "g = first_rows_of ''floor_id'' (standard_floor_row py) d"
    | "g = all_rows_of (standard_room_row py) d" by auto
  then show "df s2 = df s1"
  proof cases
    case 1
    with run show ?thesis by (auto elim!: first_rows_of_keeps dest: rows_keep_frame)
  next
    case 2
    with run show ?thesis by (auto elim!: first_rows_of_keeps dest: rows_keep_frame)
  next
    case 3
    with run show ?thesis by (auto elim!: first_rows_of_keeps dest: rows_keep_frame)
  next
    case 4
    with run show ?thesis by (auto elim!: all_rows_of_keeps dest: rows_keep_frame)
  qed
qed

subsection \<open>Dictionaries and graphs\<close>

lemma dict_set_keys [simp]: "fst ` set (dict_set k v d) = insert k (fst ` set d)"
  by (induction d) auto

lemma set_dict_set: "set (dict_set k v d) \<subseteq> insert (k, v) (set d)"
  by (induction d) auto

lemma dict_set_holds [simp]: "(k, v) \<in> set (dict_set k v d)"
  by (induction d) auto

lemma map_of_dict_set [simp]: "map_of (dict_set k v d) = (map_of d)(k \<mapsto> v)"
  by (induction d) (auto simp add: fun_eq_iff)


lemma has_node_add_node [simp]: "has_node (add_node n a g) m \<longleftrightarrow> m = n \<or> has_node g m"
  by (auto simp add: has_node_def add_node_def split: option.splits)

lemma edges_add_node [simp]: "edges (add_node n a g) = edges g"
  by (simp add: add_node_def split: option.splits)

lemma has_node_ensure_node [simp]: "has_node (ensure_node n g) m \<longleftrightarrow> m = n \<or> has_node g m"
  by (auto simp add: has_node_def ensure_node_def)

lemma edges_ensure_node [simp]: "edges (ensure_node n g) = edges g"
  by (simp add: ensure_node_def)

lemma has_node_edges_update [simp]: "has_node (g\<lparr>edges := es\<rparr>) m = has_node g m"
  by (simp add: has_node_def)

lemma has_node_add_edge [simp]:
  "has_node (add_edge u v g) m \<longleftrightarrow> m = u \<or> m = v \<or> has_node g m"
  by (auto simp add: add_edge_def Let_def)

lemma set_edges_add_edge [simp]: "set (edges (add_edge u v g)) = insert (u, v) (set (edges g))"
  by (auto simp add: add_edge_def Let_def)

lemma has_node_root_graph [simp]: "has_node root_graph n \<longleftrightarrow> n = ''root''"
  by (simp add: root_graph_def empty_graph_def) (simp add: has_node_def)

lemma edges_root_graph [simp]: "edges root_graph = []"
  by (simp add: root_graph_def empty_graph_def)

subsection \<open>The rows of the simple format\<close>

lemmas simple_row_defs =
  simple_department_row_def simple_building_row_def simple_floor_row_def simple_room_row_def

lemma simple_rows_keep_mappings:
  "simple_department_row py cols s r = Inr s' \<Longrightarrow>
     buildings s' = buildings s \<and> floors s' = floors s \<and> rooms s' = rooms s"
  "simple_building_row py cols s r = Inr s' \<Longrightarrow>
     departments s' = departments s \<and> floors s' = floors s \<and> rooms s' = rooms s"
  "simple_floor_row py cols s r = Inr s' \<Longrightarrow>
     departments s' = departments s \<and> buildings s' = buildings s \<and> rooms s' = rooms s"
  "simple_room_row py cols s r = Inr s' \<Longrightarrow>
     departments s' = departments s \<and> buildings s' = buildings s \<and> floors s' = floors s"
  by (auto simp add: simple_row_defs Let_def split: option.splits)

lemma simple_rows_grow_edges:
  "simple_department_row py cols s r = Inr s' \<Longrightarrow> set (edges (graph s)) \<subseteq> set (edges (graph s'))"
  "simple_building_row py cols s r = Inr s' \<Longrightarrow> set (edges (graph s)) \<subseteq> set (edges (graph s'))"
  "simple_floor_row py cols s r = Inr s' \<Longrightarrow> set (edges (graph s)) \<subseteq> set (edges (graph s'))"
  "simple_room_row py cols s r = Inr s' \<Longrightarrow> set (edges (graph s)) \<subseteq> set (edges (graph s'))"
  by (auto simp add: simple_row_defs Let_def split: option.splits if_splits)

lemma simple_rows_grow_nodes:
  "simple_department_row py cols s r = Inr s' \<Longrightarrow> has_node (graph s) n \<Longrightarrow> has_node (graph s') n"
  "simple_building_row py cols s r = Inr s' \<Longrightarrow> has_node (graph s) n \<Longrightarrow> has_node (graph s') n"
  "simple_floor_row py cols s r = Inr s' \<Longrightarrow> has_node (graph s) n \<Longrightarrow> has_node (graph s') n"
  "simple_room_row py cols s r = Inr s' \<Longrightarrow> has_node (graph s) n \<Longrightarrow> has_node (graph s') n"
  by (auto simp add: simple_row_defs Let_def split: option.splits if_splits)


lemma iterrows_Cons_None:
  assumes "iterrows body (a # rs) s = (None, s')"
  shows "\<exists>s1. body s a = Inr s1 \<and> iterrows body rs s1 = (None, s')"
proof (cases "body s a")
  case (Inl e)
  with assms show ?thesis by simp
next
  case (Inr s1)
  with assms show ?thesis by simp
qed

lemma iterrows_establishes:
  assumes run: "iterrows body rs s = (None, s')" and r: "r \<in> set rs" and p: "P s"
    and inv: "\<And>s r' s'. P s \<Longrightarrow> r' \<in> set rs \<Longrightarrow> body s r' = Inr s' \<Longrightarrow> P s'"
    and est: "\<And>s s'. P s \<Longrightarrow> body s r = Inr s' \<Longrightarrow> Q s'"
    and keep: "\<And>s r' s'. P s \<Longrightarrow> Q s \<Longrightarrow> r' \<in> set rs \<Longrightarrow> body s r' = Inr s' \<Longrightarrow> Q s'"
  shows "Q s'"
  using run r p inv keep
proof (induction rs arbitrary: s)
  case Nil
  then show ?case by simp
next
  case (Cons a rs)
  from iterrows_Cons_None [OF Cons.prems(1)] obtain s1 where
    a: "body s a = Inr s1" and run1: "iterrows body rs s1 = (None, s')" by blast
  have p1: "P s1" by (rule Cons.prems(4) [OF Cons.prems(3) _ a]) simp
  have inv': "P t'" if "P t" "r' \<in> set rs" "body t r' = Inr t'" for t r' t'
    by (rule Cons.prems(4) [OF that(1) _ that(3)]) (simp add: that(2))
  have keep': "Q t'" if "P t" "Q t" "r' \<in> set rs" "body t r' = Inr t'" for t r' t'
    by (rule Cons.prems(5) [OF that(1,2) _ that(4)]) (simp add: that(3))
  show ?case
  proof (cases "r \<in> set rs")
    case True
    show ?thesis by (rule Cons.IH [OF run1 True p1 inv' keep'])
  next
    case False
    with Cons.prems(2) have "a = r" by simp
    with a have "body s r = Inr s1" by simp
    from est [OF Cons.prems(3) this] have q1: "Q s1" .
    have "P s' \<and> Q s'"
    proof (rule iterrows_inv [OF run1, of "\<lambda>x. P x \<and> Q x"])
      show "P s1 \<and> Q s1" using p1 q1 by simp
    next
      fix t r' t'
      assume "P t \<and> Q t" "r' \<in> set rs" "body t r' = Inr t'"
      then show "P t' \<and> Q t'" using inv' [of t r' t'] keep' [of t r' t'] by simp
    qed
    then show ?thesis by simp
  qed
qed

lemma simple_phases:
  assumes "process_simple_format py d s = (None, s')"
  shows "\<exists>s1 s2 s3.
           iterrows (simple_department_row py (columns d)) (rows_of_type d ''department'') s
             = (None, s1)
           \<and> iterrows (simple_building_row py (columns d)) (rows_of_type d ''building'') s1
               = (None, s2)
           \<and> iterrows (simple_floor_row py (columns d)) (rows_of_type d ''floor'') s2
               = (None, s3)
           \<and> iterrows (simple_room_row py (columns d)) (rows_of_type d ''room'') s3
               = (None, s')"
proof -
  from assms have "in_sequence
          [simple_rows_of ''department'' (simple_department_row py) d,
           simple_rows_of ''building'' (simple_building_row py) d,
           simple_rows_of ''floor'' (simple_floor_row py) d,
           simple_rows_of ''room'' (simple_room_row py) d] s = (None, s')"
    by (simp add: process_simple_format_def split: if_splits)
  from in_sequence4 [OF this] show ?thesis by (simp add: simple_rows_of_def)
qed

lemma validate_changes_required_columns:
  "\<exists>cs. snd (validate_csv d self) = self\<lparr>required_columns := cs\<rparr>"
proof (cases "\<not> is_simple_format d \<and> \<not> is_standard_format d")
  case True
  have "self = self\<lparr>required_columns := required_columns self\<rparr>" by simp
  then have "\<exists>cs. self = self\<lparr>required_columns := cs\<rparr>" by (rule exI)
  with True show ?thesis by (simp add: validate_csv_def)
next
  case False
  then show ?thesis
    by (simp add: validate_csv_def Let_def split: option.splits) blast
qed

lemma simple_import_success:
  assumes "import_from_csv py d self = (None, s')" and "''type'' \<in> set (columns d)"
  shows "\<exists>cs. process_simple_format py d (reset d (self\<lparr>required_columns := cs\<rparr>)) = (None, s')"
proof -
  from assms(1) have "and_then (validate_csv d self) (process_data py d) = (None, s')"
    by (simp add: import_from_csv_def)
  from and_then_None [OF this] obtain s1 where
    v: "validate_csv d self = (None, s1)" and p: "process_data py d s1 = (None, s')" by blast
  from validate_changes_required_columns [of d self] v
  obtain cs where "s1 = self\<lparr>required_columns := cs\<rparr>" by auto
  with p assms(2) show ?thesis by (auto simp add: process_data_def)
qed


lemma starts_with_append [simp]: "starts_with p (p @ s)"
  by (induction p) auto

lemma building_prefix [simp]:
  "starts_with ''building_'' (building_node py v)"
  "\<not> starts_with ''building_'' (dept_node py v)"
  "\<not> starts_with ''building_'' (floor_node py v)"
  "\<not> starts_with ''building_'' (room_node py v)"
  "\<not> starts_with ''building_'' ''root''"
  by (simp_all add: building_node_def dept_node_def floor_node_def room_node_def)

lemma simple_rows_write:
  "simple_department_row py cols s r = Inr s' \<Longrightarrow>
     \<exists>e. departments s' = dict_set (cell_at r ''id'') e (departments s)"
  "simple_building_row py cols s r = Inr s' \<Longrightarrow>
     \<exists>e. buildings s' = dict_set (cell_at r ''id'') e (buildings s)"
  "simple_floor_row py cols s r = Inr s' \<Longrightarrow>
     \<exists>e. floors s' = dict_set (cell_at r ''id'') e (floors s)"
  "simple_room_row py cols s r = Inr s' \<Longrightarrow>
     \<exists>e. rooms s' = dict_set (cell_at r ''id'') e (rooms s)"
  by (auto simp add: simple_row_defs Let_def split: option.splits)





subsection \<open>Validation\<close>

lemma standard_nothing_missing:
  "is_standard_format d \<Longrightarrow> filter (\<lambda>col. col \<notin> set (columns d)) standard_columns = []"
  by (simp add: is_standard_format_def list_all_iff filter_empty_conv)

lemma simple_nothing_missing:
  "is_simple_format d \<Longrightarrow> filter (\<lambda>col. col \<notin> set (columns d)) simple_format_columns = []"
  by (simp add: is_simple_format_def list_all_iff filter_empty_conv)

lemma validate_standard:
  "is_standard_format d \<Longrightarrow>
   validate_csv d self =
     (duplicate_check d id_columns,
      self\<lparr>required_columns :=
             (if is_simple_format d then simple_format_columns else standard_columns)\<rparr>)"
  by (auto simp add: validate_csv_def Let_def duplicate_check_def standard_nothing_missing
        simple_nothing_missing split: option.splits)

lemma validate_simple:
  "is_simple_format d \<Longrightarrow> \<not> is_standard_format d \<Longrightarrow>
   validate_csv d self =
     (duplicate_check d [''id''], self\<lparr>required_columns := simple_format_columns\<rparr>)"
  by (auto simp add: validate_csv_def Let_def duplicate_check_def simple_nothing_missing
        split: option.splits)

text \<open>
  Claim C7. A standard-format table with one row per room and unique \<^verbatim>\<open>room_id\<close> values, in
  which rooms that share a department, building or floor repeat its identifier, should pass
  validation. The code rejects it: for two rooms \<open>R1\<close> and \<open>R2\<close> on the same floor,
  \<^verbatim>\<open>validate_csv\<close> reports the repeated \<^verbatim>\<open>department_id\<close> as a duplicate, although
  \<^verbatim>\<open>_process_data\<close> on the same table builds one department and two rooms without error.
\<close>

theorem repeated_ancestors_rejected:
  "fst (validate_csv standard_two_rooms empty_manager) =
     Some (DuplicateValues ''department_id'' [Str ''D1''])
   \<and> fst (process_data py0 standard_two_rooms empty_manager) = None
   \<and> map fst (departments (snd (process_data py0 standard_two_rooms empty_manager))) =
       [Str ''D1'']
   \<and> map fst (rooms (snd (process_data py0 standard_two_rooms empty_manager))) =
       [Str ''R1'', Str ''R2'']"
  by code_simp

text \<open>
  Claim C9. The processing format is chosen by the presence of a column \<^verbatim>\<open>type\<close> alone, not
  by the validator's classification: for every table that has all the standard columns and a
  column \<^verbatim>\<open>type\<close> but not all the simple columns, validation is the duplicate check over the
  four standard identifier columns, and \<^verbatim>\<open>_process_data\<close> (hence the import of a table that
  passes the check) takes the simple-format path.
\<close>

theorem type_column_decides_processing:
  "is_standard_format d \<Longrightarrow> ''type'' \<in> set (columns d) \<Longrightarrow> \<not> is_simple_format d \<Longrightarrow>
   fst (validate_csv d self) = duplicate_check d id_columns
   \<and> process_data py d self = process_simple_format py d (reset d self)
   \<and> import_from_csv py d self =
       (case duplicate_check d id_columns of
          Some e \<Rightarrow> (Some e, self\<lparr>required_columns := standard_columns\<rparr>)
        | None \<Rightarrow>
            process_simple_format py d
              (reset d (self\<lparr>required_columns := standard_columns\<rparr>)))"
  by (simp add: validate_standard process_data_def import_from_csv_def split: option.splits)

text \<open>
  The table \<open>standard_with_type\<close> is such a table; it passes the duplicate check, and its
  import fails in the simple-format room loop on the column \<^verbatim>\<open>id\<close> that it does not have.
\<close>

theorem type_column_decides_processing_witness:
  "is_standard_format standard_with_type \<and> ''type'' \<in> set (columns standard_with_type)
   \<and> \<not> is_simple_format standard_with_type
   \<and> fst (validate_csv standard_with_type empty_manager) = None
   \<and> fst (import_from_csv py0 standard_with_type empty_manager) = Some (KeyError ''id'')"
proof -
  have std: "is_standard_format standard_with_type" by code_simp
  have ty: "''type'' \<in> set (columns standard_with_type)" by code_simp
  have nsimple: "\<not> is_simple_format standard_with_type" by code_simp
  have chk: "duplicate_check standard_with_type id_columns = None" by code_simp
  have run: "fst (process_simple_format py0 standard_with_type
                (reset standard_with_type (empty_manager\<lparr>required_columns := standard_columns\<rparr>)))
             = Some (KeyError ''id'')"
    by code_simp
  from type_column_decides_processing [OF std ty nsimple, of empty_manager py0] chk run
  show ?thesis using std ty nsimple by simp
qed

lemma not_distinct_count: "\<not> distinct xs \<Longrightarrow> \<exists>x\<in>set xs. 1 < count_list xs x"
proof (induction xs)
  case Nil
  then show ?case by simp
next
  case (Cons a xs)
  show ?case
  proof (cases "a \<in> set xs")
    case True
    then have "0 < count_list xs a" using count_list_0_iff [of xs a] by simp
    then show ?thesis by auto
  next
    case False
    with Cons.prems have "\<not> distinct xs" by simp
    from Cons.IH [OF this] obtain x where x: "x \<in> set xs" "1 < count_list xs x" by blast
    with False have "x \<noteq> a" by auto
    with x have "x \<in> set (a # xs)" "1 < count_list (a # xs) x" by simp_all
    then show ?thesis by blast
  qed
qed

lemma set_unique: "set (unique xs) = set xs"
  by (simp add: unique_def)

lemma distinct_unique: "distinct (unique xs)"
  by (simp add: unique_def)

lemma set_dupes: "set (dupes xs) = {x. 1 < count_list xs x}"
proof -
  have "1 < count_list xs x \<Longrightarrow> x \<in> set xs" for x
    using count_list_0_iff [of xs x] by (cases "x \<in> set xs") auto
  then show ?thesis by (auto simp add: dupes_def set_unique)
qed

lemma distinct_dupes: "distinct (dupes xs)"
  by (simp add: dupes_def distinct_unique)

lemma singleton_list: "distinct vs \<Longrightarrow> set vs = {a} \<Longrightarrow> vs = [a]"
proof (cases vs)
  case Nil
  assume "set vs = {a}"
  with Nil show ?thesis by simp
next
  case (Cons x list)
  assume d: "distinct vs" and s: "set vs = {a}"
  from s Cons have "x = a" by auto
  moreover from d s Cons \<open>x = a\<close> have "list = []" by (cases list) auto
  ultimately show ?thesis using Cons by simp
qed

lemma dupes_nonempty: "\<not> distinct xs \<Longrightarrow> dupes xs \<noteq> []"
proof -
  assume "\<not> distinct xs"
  then obtain x where "1 < count_list xs x" using not_distinct_count by blast
  then have "x \<in> set (dupes xs)" by (simp add: set_dupes)
  then show ?thesis by auto
qed

lemma duplicate_check_Some:
  assumes "c \<in> set cs" and "\<not> distinct (column d c)"
  shows "\<exists>c' \<in> set cs. \<not> distinct (column d c') \<and>
           duplicate_check d cs = Some (DuplicateValues c' (dupes (column d c')))"
proof -
  from assms have "find (\<lambda>c. \<not> distinct (column d c)) cs \<noteq> None"
    by (auto simp add: find_None_iff)
  then obtain c' where f: "find (\<lambda>c. \<not> distinct (column d c)) cs = Some c'" by blast
  then have "c' \<in> set cs" "\<not> distinct (column d c')"
    by (auto simp add: find_Some_iff in_set_conv_nth)
  with f show ?thesis by (auto simp add: duplicate_check_def)
qed

lemma duplicate_check_rooms:
  assumes "distinct (column d ''department_id'')" "distinct (column d ''building_id'')"
    "distinct (column d ''floor_id'')" "\<not> distinct (column d ''room_id'')"
  shows "duplicate_check d id_columns =
           Some (DuplicateValues ''room_id'' (dupes (column d ''room_id'')))"
  using assms by (simp add: duplicate_check_def id_columns_def)

text \<open>
  Where the duplicate check rejects. A table with all the standard columns whose \<^verbatim>\<open>room_id\<close>
  column holds a value twice, and a table with all the simple columns, but not all the
  standard ones, whose \<^verbatim>\<open>id\<close> column holds a value twice, fail to import with a
  duplicate-values error, and the frame, the graph and the four mappings stay as they were.
  The error names a column and exactly the values that occur more than once in it.
\<close>

lemma duplicate_ids_rejected:
  assumes "(is_standard_format d \<and> \<not> distinct (column d ''room_id'')) \<or>
           (is_simple_format d \<and> \<not> is_standard_format d \<and> \<not> distinct (column d ''id''))"
  shows "\<exists>c vs s'.
           import_from_csv py d self = (Some (DuplicateValues c vs), s')
           \<and> df s' = df self \<and> graph s' = graph self
           \<and> departments s' = departments self \<and> buildings s' = buildings self
           \<and> floors s' = floors self \<and> rooms s' = rooms self
           \<and> vs \<noteq> [] \<and> distinct vs \<and> set vs = {v. 1 < count_list (column d c) v}
           \<and> (is_standard_format d \<and> distinct (column d ''department_id'')
                \<and> distinct (column d ''building_id'') \<and> distinct (column d ''floor_id'')
                \<longrightarrow> c = ''room_id'')
           \<and> (\<not> is_standard_format d \<longrightarrow> c = ''id'')"
proof (cases "is_standard_format d")
  case True
  with assms have dup: "\<not> distinct (column d ''room_id'')" by blast
  have "''room_id'' \<in> set id_columns" by (simp add: id_columns_def)
  from duplicate_check_Some [OF this dup] obtain c where
    c: "\<not> distinct (column d c)"
       "duplicate_check d id_columns = Some (DuplicateValues c (dupes (column d c)))"
    by blast
  have room: "c = ''room_id''"
    if "distinct (column d ''department_id'')" "distinct (column d ''building_id'')"
       "distinct (column d ''floor_id'')"
    using duplicate_check_rooms [OF that dup] c(2) by simp
  show ?thesis
    using True c room
    by (simp add: import_from_csv_def validate_standard [OF True] dupes_nonempty set_dupes
          distinct_dupes)
next
  case False
  with assms have s: "is_simple_format d" and dup: "\<not> distinct (column d ''id'')" by blast+
  have "duplicate_check d [''id''] = Some (DuplicateValues ''id'' (dupes (column d ''id'')))"
    using dup by (simp add: duplicate_check_def)
  then show ?thesis
    using False dup
    by (simp add: import_from_csv_def validate_simple [OF s False] dupes_nonempty set_dupes
          distinct_dupes)
qed

text \<open>A standard table with a repeated \<^verbatim>\<open>room_id\<close>, imported over the loaded simple campus.\<close>

lemma duplicate_ids_rejected_example:
  "is_standard_format duplicate_rooms \<and> \<not> distinct (column duplicate_rooms ''room_id'')
   \<and> (\<exists>s'. import_from_csv py0 duplicate_rooms (loaded simple_campus) =
               (Some (DuplicateValues ''room_id'' [Str ''R1'']), s')
            \<and> rooms s' = rooms (loaded simple_campus) \<and> rooms s' \<noteq> [])"
proof -
  have std: "is_standard_format duplicate_rooms" by code_simp
  have dup: "\<not> distinct (column duplicate_rooms ''room_id'')" by code_simp
  have anc: "distinct (column duplicate_rooms ''department_id'')"
    "distinct (column duplicate_rooms ''building_id'')"
    "distinct (column duplicate_rooms ''floor_id'')" by code_simp+
  have vals: "{v. 1 < count_list (column duplicate_rooms ''room_id'') v} = {Str ''R1''}"
    unfolding set_dupes [symmetric] by code_simp
  have ne: "rooms (loaded simple_campus) \<noteq> []" by code_simp
  from duplicate_ids_rejected [of duplicate_rooms py0 "loaded simple_campus"] std dup
  obtain c vs s' where r:
    "import_from_csv py0 duplicate_rooms (loaded simple_campus) = (Some (DuplicateValues c vs), s')"
    "rooms s' = rooms (loaded simple_campus)" "distinct vs"
    "set vs = {v. 1 < count_list (column duplicate_rooms c) v}" "c = ''room_id''"
    using anc by blast
  from r(3,4,5) vals have "vs = [Str ''R1'']"
    by (simp add: singleton_list)
  with r ne std dup show ?thesis by simp
qed

text \<open>
  Claim C1. Every table in which an entity identifier occurs twice should be rejected by the
  import with a duplicate-identifier error, the store left unchanged. The code accepts the
  table \<open>both_formats\<close>, whose two department rows have the \<^verbatim>\<open>id\<close> \<open>X\<close>: the table has the
  columns of both formats, \<^verbatim>\<open>validate_csv\<close> classifies it as simple (it sets
  \<^verbatim>\<open>required_columns\<close> to the simple columns) but checks the four standard identifier columns
  only, the import takes the simple path, replaces the loaded store and keeps the second of
  the two departments. The same two rows in a table with the simple columns only are
  rejected.
\<close>

theorem duplicate_id_accepted:
  "is_simple_format both_formats \<and> is_standard_format both_formats
   \<and> \<not> distinct (column both_formats ''id'')
   \<and> required_columns (snd (validate_csv both_formats (loaded simple_campus))) =
       simple_format_columns
   \<and> fst (import_from_csv py0 both_formats (loaded simple_campus)) = None
   \<and> map fst (departments (loaded simple_campus)) = [Str ''D1'']
   \<and> map (\<lambda>kv. (fst kv, map_of (snd kv) ''name''))
         (departments (snd (import_from_csv py0 both_formats (loaded simple_campus)))) =
       [(Str ''X'', Some (Str ''Second''))]
   \<and> fst (import_from_csv py0 same_id_simple (loaded simple_campus)) =
       Some (DuplicateValues ''id'' [Str ''X''])
   \<and> departments (snd (import_from_csv py0 same_id_simple (loaded simple_campus))) =
       departments (loaded simple_campus)"
  by code_simp

subsection \<open>Export\<close>

lemma type_is_simple_column: "is_simple_format d \<Longrightarrow> ''type'' \<in> set (columns d)"
  by (simp add: is_simple_format_def simple_format_columns_def)

lemma reset_after_validation:
  "reset d (s\<lparr>required_columns := cs\<rparr>) = reset d (self\<lparr>required_columns := cs\<rparr>)"
  by (simp add: reset_def)

lemma standard_import_success:
  assumes "import_from_csv py d self = (None, s)" and "''type'' \<notin> set (columns d)"
  shows "is_standard_format d \<and> duplicate_check d id_columns = None
         \<and> process_standard_format py d (reset d (self\<lparr>required_columns := standard_columns\<rparr>))
             = (None, s)"
proof -
  from assms(2) have ns: "\<not> is_simple_format d" using type_is_simple_column by blast
  have std: "is_standard_format d"
  proof (rule ccontr)
    assume "\<not> is_standard_format d"
    with ns have "validate_csv d self = (Some FormatNotRecognized, self)"
      by (simp add: validate_csv_def)
    with assms(1) show False by (simp add: import_from_csv_def)
  qed
  from assms(1) have "and_then (duplicate_check d id_columns, self\<lparr>required_columns := standard_columns\<rparr>)
      (process_data py d) = (None, s)"
    by (simp add: import_from_csv_def validate_standard [OF std] ns)
  from and_then_None [OF this] assms(2) std show ?thesis
    by (auto simp add: process_data_def)
qed

lemma standard_import_of_valid:
  assumes "is_standard_format d" and "''type'' \<notin> set (columns d)"
    and "duplicate_check d id_columns = None"
  shows "import_from_csv py d self =
           process_standard_format py d (reset d (self\<lparr>required_columns := standard_columns\<rparr>))"
proof -
  from assms(2) have ns: "\<not> is_simple_format d" using type_is_simple_column by blast
  show ?thesis
    by (simp add: import_from_csv_def validate_standard [OF assms(1)] ns assms process_data_def)
qed

lemma process_standard_no_rows:
  "rows d = [] \<Longrightarrow> is_standard_format d \<Longrightarrow> process_standard_format py d s = (None, s)"
  by (simp add: process_standard_format_def first_rows_of_def all_rows_of_def
        drop_duplicates_def is_standard_format_def standard_columns_def)

lemma standard_header_valid:
  "is_standard_format standard_header" "''type'' \<notin> set (columns standard_header)"
  "duplicate_check standard_header id_columns = None" "rows standard_header = []"
  by (simp_all add: standard_header_def is_standard_format_def standard_columns_def
        optional_columns_def duplicate_check_def id_columns_def column_def)

text \<open>
  The export in the standard format of a store that a standard-format import has built is
  the stored frame, or the header-only frame when the stored frame has no rows, and
  importing that frame gives the same store. This is a statement about frames only.
\<close>

lemma stored_frame_reimports:
  assumes "import_from_csv py d self = (None, s)" and "''type'' \<notin> set (columns d)"
  shows "\<exists>d' s'. export_to_csv s ''standard'' = Inr d'
           \<and> import_from_csv py d' s = (None, s')
           \<and> departments s' = departments s \<and> buildings s' = buildings s
           \<and> floors s' = floors s \<and> rooms s' = rooms s \<and> graph s' = graph s"
proof -
  let ?v = "\<lambda>x :: 'a data_manager. x\<lparr>required_columns := standard_columns\<rparr>"
  from standard_import_success [OF assms] have std: "is_standard_format d"
    and chk: "duplicate_check d id_columns = None"
    and run: "process_standard_format py d (reset d (?v self)) = (None, s)" by auto
  from process_standard_keeps_frame [OF run] have frame: "df s = d" by (simp add: reset_def)
  show ?thesis
  proof (cases "empty_frame d")
    case False
    with frame assms(2) have "export_to_csv s ''standard'' = Inr d"
      by (simp add: export_to_csv_def)
    moreover have "import_from_csv py d s = (None, s)"
      using standard_import_of_valid [OF std assms(2) chk, of py s] run
      by (simp add: reset_after_validation [where s = s and self = self])
    ultimately show ?thesis by simp
  next
    case True
    from std have "columns d \<noteq> []"
      by (auto simp add: is_standard_format_def standard_columns_def)
    with True have empty: "rows d = []" by (simp add: empty_frame_def)
    from process_standard_no_rows [OF empty std] run have s: "s = reset d (?v self)" by simp
    from True frame assms(2) have "export_to_csv s ''standard'' = Inr standard_header"
      by (simp add: export_to_csv_def standard_header_def)
    moreover have "import_from_csv py standard_header s = (None, reset standard_header (?v s))"
      using standard_import_of_valid [OF standard_header_valid(1,2,3), of py s]
        process_standard_no_rows [OF standard_header_valid(4,1)]
      by simp
    ultimately show ?thesis by (simp add: s reset_def)
  qed
qed

text \<open>The import of \<open>standard_one_room\<close> into the empty manager is such an import.\<close>

lemma stored_frame_reimports_example:
  "''type'' \<notin> set (columns standard_one_room)
   \<and> fst (import_from_csv py0 standard_one_room empty_manager) = None
   \<and> map fst (rooms (loaded standard_one_room)) = [Str ''R1'']
   \<and> (\<exists>d' s'. export_to_csv (loaded standard_one_room) ''standard'' = Inr d'
         \<and> import_from_csv py0 d' (loaded standard_one_room) = (None, s')
         \<and> rooms s' = rooms (loaded standard_one_room)
         \<and> graph s' = graph (loaded standard_one_room))"
proof -
  have ty: "''type'' \<notin> set (columns standard_one_room)" by code_simp
  have ok: "fst (import_from_csv py0 standard_one_room empty_manager) = None" by code_simp
  have rs: "map fst (rooms (loaded standard_one_room)) = [Str ''R1'']" by code_simp
  from ok have imp: "import_from_csv py0 standard_one_room empty_manager =
      (None, loaded standard_one_room)"
    by (simp add: loaded_def prod_eq_iff)
  from stored_frame_reimports [OF imp ty] ty ok rs show ?thesis by blast
qed

text \<open>
  Claim C2 is about the text between the export and the import: \<^verbatim>\<open>export_to_csv\<close> returns
  what \<^verbatim>\<open>DataFrame.to_csv\<close> writes, and the import starts from what \<^verbatim>\<open>pd.read_csv\<close> makes of
  it (quoting, the inference of column types, the printing and parsing of floats). That
  step is pandas' and has no counterpart in this model, in which the two lemmas above are
  all that is left of the round trip; the claim itself is not stated.
\<close>

text \<open>
  Claim C3. \<^verbatim>\<open>export_to_csv\<close> with an explicitly requested format should produce rows in
  that format whatever format was imported. The code does not convert a simple-format frame:
  after the import of \<open>simple_campus\<close>, the export in the standard format is that same frame,
  with the simple columns and without the standard ones.
\<close>

theorem standard_export_of_simple_import:
  "fst (import_from_csv py0 simple_campus empty_manager) = None
   \<and> export_to_csv (loaded simple_campus) ''standard'' = Inr simple_campus
   \<and> columns simple_campus = simple_format_columns
   \<and> \<not> is_standard_format simple_campus"
  by code_simp

subsection \<open>Search\<close>

text \<open>
  Claim C10. For every store, \<^verbatim>\<open>search\<close> with the empty string returns the mapping with the
  four keys \<^verbatim>\<open>departments\<close>, \<^verbatim>\<open>buildings\<close>, \<^verbatim>\<open>floors\<close> and \<^verbatim>\<open>rooms\<close>, each with an empty list.
\<close>

theorem search_empty_query:
  "search py self [] =
     [(''departments'', []), (''buildings'', []), (''floors'', []), (''rooms'', [])]"
  by (simp add: search_def)

text \<open>
  Claim C8. \<^verbatim>\<open>search\<close> should return exactly the entities one of whose searched fields
  contains the query. The code also returns entities whose field is missing: a blank cell is
  read as NaN, NaN passes the guard \<^verbatim>\<open>item[key]\<close> and prints as \<^verbatim>\<open>nan\<close>. After the import of
  \<open>simple_campus\<close> the department \<open>D1\<close> has the name \<open>CS\<close> and no description, and the query
  \<open>nan\<close> returns it.
\<close>

theorem search_matches_missing_description:
  "fst (import_from_csv py0 simple_campus empty_manager) = None
   \<and> departments (loaded simple_campus) =
       [(Str ''D1'', [(''id'', Str ''D1''), (''name'', Str ''CS''), (''description'', NaN)])]
   \<and> map_of (search py0 (loaded simple_campus) ''nan'') ''departments'' =
       Some [[(''id'', Str ''D1''), (''name'', Str ''CS''), (''description'', NaN)]]
   \<and> \<not> contains ''nan'' (lower ''CS'')"
  by code_simp

subsection \<open>Fallback attachment\<close>



subsection \<open>Coordinate synthesis\<close>

lemma coordinate_unusable:
  "unusable py raw \<Longrightarrow> coordinate py raw ident = Num (50 + py_hash py ident mod 40)"
  by (auto simp add: unusable_def coordinate_def synthesized_def split: option.splits)

lemma simple_rows_synthesize:
  "simple_building_row py cols s r = Inr s' \<Longrightarrow>
     \<exists>e. buildings s' = dict_set (cell_at r ''id'') e (buildings s) \<and> synthesized_for py cols r e"
  "simple_floor_row py cols s r = Inr s' \<Longrightarrow>
     \<exists>e. floors s' = dict_set (cell_at r ''id'') e (floors s) \<and> synthesized_for py cols r e"
  "simple_room_row py cols s r = Inr s' \<Longrightarrow>
     \<exists>e. rooms s' = dict_set (cell_at r ''id'') e (rooms s) \<and> synthesized_for py cols r e"
  by (auto simp add: simple_row_defs Let_def synthesized_for_def coordinate_unusable
        split: option.splits)

lemma iterrows_entry:
  assumes run: "iterrows body rs s = (None, s')" and r: "r \<in> set rs"
    and inj: "inj_on key (set rs)"
    and step: "\<And>s r s'. body s r = Inr s' \<Longrightarrow> \<exists>e. get s' = dict_set (key r) e (get s) \<and> X r e"
  shows "\<exists>e. map_of (get s') (key r) = Some e \<and> X r e"
proof (rule iterrows_establishes [OF run r, of "\<lambda>s. True"
        "\<lambda>s. \<exists>e. map_of (get s) (key r) = Some e \<and> X r e"])
  fix s t
  assume "body s r = Inr t"
  from step [OF this] show "\<exists>e. map_of (get t) (key r) = Some e \<and> X r e" by auto
next
  fix s r' t
  assume q: "\<exists>e. map_of (get s) (key r) = Some e \<and> X r e" and r': "r' \<in> set rs"
    and b: "body s r' = Inr t"
  from step [OF b] obtain e' where t: "get t = dict_set (key r') e' (get s)" "X r' e'" by blast
  show "\<exists>e. map_of (get t) (key r) = Some e \<and> X r e"
  proof (cases "key r' = key r")
    case True
    with inj r r' have "r' = r" by (auto dest: inj_onD)
    with t show ?thesis by simp
  next
    case False
    with t q show ?thesis by simp
  qed
qed simp_all

text \<open>
  Claim C5, as amended. After a successful import on the simple-format path of a table with
  distinct ids, for every building, floor or room row: if its \<^verbatim>\<open>x\<close> is absent, blank or
  non-numeric and its \<^verbatim>\<open>id\<close> is not blank, the imported entity's \<open>x\<close> is
  \<^verbatim>\<open>50 + (hash(id) % 40)\<close>; if its \<^verbatim>\<open>y\<close> is absent, blank or non-numeric and its \<^verbatim>\<open>name\<close> is not
  blank, the imported entity's \<open>y\<close> is \<^verbatim>\<open>50 + (hash(name) % 40)\<close>. The value is fixed by the id,
  the name and the session's \<^verbatim>\<open>hash\<close>, so that importing the same row again in the same
  session gives the same coordinates.
\<close>

theorem synthesized_coordinates:
  assumes imp: "import_from_csv py d self = (None, s')" and ty: "''type'' \<in> set (columns d)"
    and ids: "distinct (column d ''id'')" and r: "r \<in> set (rows d)"
  shows "(has_type ''building'' r \<longrightarrow>
            (\<exists>e. map_of (buildings s') (cell_at r ''id'') = Some e
                 \<and> synthesized_for py (columns d) r e))
       \<and> (has_type ''floor'' r \<longrightarrow>
            (\<exists>e. map_of (floors s') (cell_at r ''id'') = Some e
                 \<and> synthesized_for py (columns d) r e))
       \<and> (has_type ''room'' r \<longrightarrow>
            (\<exists>e. map_of (rooms s') (cell_at r ''id'') = Some e
                 \<and> synthesized_for py (columns d) r e))"
proof -
  let ?cols = "columns d"
  let ?id = "\<lambda>r :: 'a row. cell_at r ''id''"
  from simple_import_success [OF imp ty] obtain cs where
    "process_simple_format py d (reset d (self\<lparr>required_columns := cs\<rparr>)) = (None, s')" by blast
  from simple_phases [OF this] obtain s1 s2 s3 where
    p2: "iterrows (simple_building_row py ?cols) (rows_of_type d ''building'') s1 = (None, s2)"
    and p3: "iterrows (simple_floor_row py ?cols) (rows_of_type d ''floor'') s2 = (None, s3)"
    and p4: "iterrows (simple_room_row py ?cols) (rows_of_type d ''room'') s3 = (None, s')"
    by blast
  from ids have "inj_on ?id (set (rows d))" by (simp add: column_def distinct_map)
  then have inj: "inj_on ?id (set (rows_of_type d t))" for t
    by (rule inj_on_subset) (auto simp add: rows_of_type_def)
  have b: "buildings s' = buildings s2"
    using iterrows_keeps [OF p3, of buildings] iterrows_keeps [OF p4, of buildings]
      simple_rows_keep_mappings(3,4) [of py ?cols] by simp
  have f: "floors s' = floors s3"
    using iterrows_keeps [OF p4, of floors] simple_rows_keep_mappings(4) [of py ?cols] by simp
  have "\<exists>e. map_of (buildings s') (?id r) = Some e \<and> synthesized_for py ?cols r e"
    if "has_type ''building'' r"
    unfolding b
    by (rule iterrows_entry [OF p2 _ inj, of r buildings "synthesized_for py ?cols"])
      (use r that in \<open>simp_all add: rows_of_type_def simple_rows_synthesize(1)\<close>)
  moreover have "\<exists>e. map_of (floors s') (?id r) = Some e \<and> synthesized_for py ?cols r e"
    if "has_type ''floor'' r"
    unfolding f
    by (rule iterrows_entry [OF p3 _ inj, of r floors "synthesized_for py ?cols"])
      (use r that in \<open>simp_all add: rows_of_type_def simple_rows_synthesize(2)\<close>)
  moreover have "\<exists>e. map_of (rooms s') (?id r) = Some e \<and> synthesized_for py ?cols r e"
    if "has_type ''room'' r"
    by (rule iterrows_entry [OF p4 _ inj, of r rooms "synthesized_for py ?cols"])
      (use r that in \<open>simp_all add: rows_of_type_def simple_rows_synthesize(3)\<close>)
  ultimately show ?thesis by blast
qed

text \<open>The building \<open>B1\<close> of \<open>simple_campus\<close> has no coordinates in the table; with the
  fixture's \<^verbatim>\<open>hash\<close> it is placed at \<open>(52, 59)\<close>.\<close>

theorem synthesized_coordinates_witness:
  "fst (import_from_csv py0 simple_campus empty_manager) = None
   \<and> ''type'' \<in> set (columns simple_campus) \<and> distinct (column simple_campus ''id'')
   \<and> tech_hall \<in> set (rows simple_campus) \<and> has_type ''building'' tech_hall
   \<and> unusable py0 (row_get_opt (columns simple_campus) tech_hall ''x'')
   \<and> unusable py0 (row_get_opt (columns simple_campus) tech_hall ''y'')
   \<and> cell_at tech_hall ''id'' \<noteq> NaN \<and> cell_at tech_hall ''name'' \<noteq> NaN
   \<and> py_hash py0 (Str ''B1'') = 2 \<and> py_hash py0 (Str ''Tech Hall'') = 9
   \<and> (\<exists>e. map_of (buildings (loaded simple_campus)) (Str ''B1'') = Some e
          \<and> map_of e ''x'' = Some (Num 52) \<and> map_of e ''y'' = Some (Num 59))"
proof -
  have ok: "fst (import_from_csv py0 simple_campus empty_manager) = None" by code_simp
  then have imp: "import_from_csv py0 simple_campus empty_manager = (None, loaded simple_campus)"
    by (simp add: loaded_def prod_eq_iff)
  have ty: "''type'' \<in> set (columns simple_campus)" by code_simp
  have ids: "distinct (column simple_campus ''id'')" by code_simp
  have r: "tech_hall \<in> set (rows simple_campus)" by code_simp
  have b: "has_type ''building'' tech_hall" by code_simp
  have x: "unusable py0 (row_get_opt (columns simple_campus) tech_hall ''x'')" by code_simp
  have y: "unusable py0 (row_get_opt (columns simple_campus) tech_hall ''y'')" by code_simp
  have c: "cell_at tech_hall ''id'' = Str ''B1''" "cell_at tech_hall ''name'' = Str ''Tech Hall''"
    by code_simp+
  have h: "py_hash py0 (Str ''B1'') = 2" "py_hash py0 (Str ''Tech Hall'') = 9" by code_simp+
  from synthesized_coordinates [OF imp ty ids r] b obtain e where
    "map_of (buildings (loaded simple_campus)) (cell_at tech_hall ''id'') = Some e"
    "synthesized_for py0 (columns simple_campus) tech_hall e" by blast
  with x y c h have "map_of (buildings (loaded simple_campus)) (Str ''B1'') = Some e
      \<and> map_of e ''x'' = Some (Num 52) \<and> map_of e ''y'' = Some (Num 59)"
    by (simp add: synthesized_for_def)
  with ok ty ids r b x y c h show ?thesis by simp
qed

text \<open>
  Claim C5 as stated, for every simple-format row, fails in two ways. A department row
  gets no coordinate at all: the department \<open>D1\<close> of \<open>simple_campus\<close> has no \<open>x\<close>. And a row
  whose id another row of its type repeats is overwritten by that row: in
  \<open>same_id_buildings\<close> the first building \<open>B\<close> has no \<^verbatim>\<open>x\<close>, for which the formula gives \<open>51\<close>,
  and the imported building \<open>B\<close> has the \<open>x = 7\<close> of the second row.
\<close>

theorem synthesized_coordinates_counterexample:
  "fst (import_from_csv py0 simple_campus empty_manager) = None
   \<and> has_type ''department'' (hd (rows simple_campus))
   \<and> cell_at (hd (rows simple_campus)) ''id'' = Str ''D1''
   \<and> unusable py0 (row_get_opt (columns simple_campus) (hd (rows simple_campus)) ''x'')
   \<and> map_option (\<lambda>e. map_of e ''x'') (map_of (departments (loaded simple_campus)) (Str ''D1''))
       = Some None
   \<and> fst (import_from_csv py0 same_id_buildings empty_manager) = None
   \<and> has_type ''building'' (hd (rows same_id_buildings))
   \<and> cell_at (hd (rows same_id_buildings)) ''id'' = Str ''B''
   \<and> unusable py0 (row_get_opt (columns same_id_buildings) (hd (rows same_id_buildings)) ''x'')
   \<and> synthesized py0 (Str ''B'') = Num 51
   \<and> map_option (\<lambda>e. map_of e ''x'') (map_of (buildings (loaded same_id_buildings)) (Str ''B''))
       = Some (Some (Flt 7))"
  by code_simp

text \<open>
  The coordinate synthesized from a blank name is computed from the hash of a NaN object,
  which is not fixed by the row: the building of \<open>nameless_building\<close> gets the \<open>y\<close> that the
  hash of that object gives, \<open>53\<close> under \<open>py0\<close> and \<open>57\<close> under \<open>py0_other_nan\<close>.
\<close>

lemma blank_name_coordinate:
  "cell_at (hd (rows nameless_building)) ''name'' = NaN
   \<and> unusable py0 (row_get_opt (columns nameless_building) (hd (rows nameless_building)) ''y'')
   \<and> fst (import_from_csv py0 nameless_building empty_manager) = None
   \<and> map_option (\<lambda>e. map_of e ''y'')
         (map_of (buildings (snd (import_from_csv py0 nameless_building empty_manager)))
            (Str ''B1'')) = Some (Some (Num 53))
   \<and> py_hash py0_other_nan (Str ''B1'') = py_hash py0 (Str ''B1'')
   \<and> fst (import_from_csv py0_other_nan nameless_building empty_manager) = None
   \<and> map_option (\<lambda>e. map_of e ''y'')
         (map_of (buildings (snd (import_from_csv py0_other_nan nameless_building empty_manager)))
            (Str ''B1'')) = Some (Some (Num 57))"
  by code_simp

subsection \<open>The mappings and the graph\<close>

lemma in_dict_set: "(k, e) \<in> set (dict_set k' v d) \<Longrightarrow> (k = k' \<and> e = v) \<or> (k, e) \<in> set d"
  using set_dict_set [of k' v d] by auto

lemma nodes_present_grow:
  assumes "nodes_present f m g" and "\<And>n. has_node g n \<Longrightarrow> has_node g' n"
  shows "nodes_present f m g'"
  using assms by (simp add: nodes_present_def)

lemma nodes_present_dict_set:
  assumes "nodes_present f m g" and "has_node g (f k)"
  shows "nodes_present f (dict_set k e m) g"
  using assms by (auto simp add: nodes_present_def)

lemma nodes_presentD:
  "nodes_present f m g \<Longrightarrow> f p \<in> f ` fst ` set m \<Longrightarrow> has_node g (f p)"
  by (auto simp add: nodes_present_def)

lemma linked_if_resolved_grow:
  assumes "linked_if_resolved pn cn field ps cs g" and "set (edges g) \<subseteq> set (edges g')"
  shows "linked_if_resolved pn cn field ps cs g'"
  unfolding linked_if_resolved_def
proof (intro allI impI)
  fix k e
  assume "(k, e) \<in> set cs"
  with assms(1) obtain p where "map_of e field = Some p"
    "p \<noteq> Str ''unknown'' \<and> pn p \<in> pn ` fst ` set ps \<longrightarrow> (pn p, cn k) \<in> set (edges g)"
    unfolding linked_if_resolved_def by blast
  with assms(2) show "\<exists>p. map_of e field = Some p \<and>
      (p \<noteq> Str ''unknown'' \<and> pn p \<in> pn ` fst ` set ps \<longrightarrow> (pn p, cn k) \<in> set (edges g'))"
    by blast
qed

lemma linked_if_resolved_none [simp]: "linked_if_resolved pn cn field ps [] g"
  by (simp add: linked_if_resolved_def)

lemma linked_if_resolved_dict_set:
  assumes "linked_if_resolved pn cn field ps cs g"
    and "map_of e field = Some p"
    and "p \<noteq> Str ''unknown'' \<Longrightarrow> pn p \<in> pn ` fst ` set ps \<Longrightarrow> (pn p, cn k) \<in> set (edges g)"
  shows "linked_if_resolved pn cn field ps (dict_set k e cs) g"
  unfolding linked_if_resolved_def
proof (intro allI impI)
  fix k' e'
  assume "(k', e') \<in> set (dict_set k e cs)"
  from in_dict_set [OF this] show "\<exists>p. map_of e' field = Some p \<and>
      (p \<noteq> Str ''unknown'' \<and> pn p \<in> pn ` fst ` set ps \<longrightarrow> (pn p, cn k') \<in> set (edges g))"
  proof
    assume "k' = k \<and> e' = e"
    with assms(2,3) show ?thesis by blast
  next
    assume "(k', e') \<in> set cs"
    with assms(1) show ?thesis unfolding linked_if_resolved_def by blast
  qed
qed

lemma linked_grow:
  assumes "linked pn cn field cs g" and "set (edges g) \<subseteq> set (edges g')"
  shows "linked pn cn field cs g'"
  unfolding linked_def
proof (intro allI impI)
  fix k e
  assume "(k, e) \<in> set cs"
  with assms(1) obtain p where "map_of e field = Some p" "(pn p, cn k) \<in> set (edges g)"
    unfolding linked_def by blast
  with assms(2) show "\<exists>p. map_of e field = Some p \<and> (pn p, cn k) \<in> set (edges g')" by blast
qed

lemma linked_none [simp]: "linked pn cn field [] g"
  by (simp add: linked_def)

lemma linked_dict_set:
  assumes "linked pn cn field cs g" and "map_of e field = Some p"
    and "(pn p, cn k) \<in> set (edges g)"
  shows "linked pn cn field (dict_set k e cs) g"
  unfolding linked_def
proof (intro allI impI)
  fix k' e'
  assume "(k', e') \<in> set (dict_set k e cs)"
  from in_dict_set [OF this]
  show "\<exists>p. map_of e' field = Some p \<and> (pn p, cn k') \<in> set (edges g)"
  proof
    assume "k' = k \<and> e' = e"
    with assms(2,3) show ?thesis by blast
  next
    assume "(k', e') \<in> set cs"
    with assms(1) show ?thesis unfolding linked_def by blast
  qed
qed

lemma or_unknown_known: "or_unknown py v \<noteq> Str ''unknown'' \<Longrightarrow> truthy py v \<and> or_unknown py v = v"
  by (simp add: or_unknown_def split: if_splits)

lemma simple_rows_add_node:
  "simple_department_row py cols s r = Inr s' \<Longrightarrow>
     has_node (graph s') (dept_node py (cell_at r ''id''))"
  "simple_building_row py cols s r = Inr s' \<Longrightarrow>
     has_node (graph s') (building_node py (cell_at r ''id''))"
  "simple_floor_row py cols s r = Inr s' \<Longrightarrow>
     has_node (graph s') (floor_node py (cell_at r ''id''))"
  "simple_room_row py cols s r = Inr s' \<Longrightarrow>
     has_node (graph s') (room_node py (cell_at r ''id''))"
  by (auto simp add: simple_row_defs Let_def split: option.splits)

lemma simple_rows_record_parent:
  "simple_building_row py cols s r = Inr s' \<Longrightarrow>
     \<exists>e. buildings s' = dict_set (cell_at r ''id'') e (buildings s)
        \<and> map_of e ''department_id'' = Some (or_unknown py (row_get cols r ''building_id'' (Str [])))"
  "simple_floor_row py cols s r = Inr s' \<Longrightarrow>
     \<exists>e. floors s' = dict_set (cell_at r ''id'') e (floors s)
        \<and> map_of e ''building_id'' = Some (or_unknown py (row_get cols r ''building_id'' (Str [])))"
  "simple_room_row py cols s r = Inr s' \<Longrightarrow>
     \<exists>e. rooms s' = dict_set (cell_at r ''id'') e (rooms s)
        \<and> map_of e ''floor_id'' = Some (or_unknown py (row_get cols r ''building_id'' (Str [])))"
  by (auto simp add: simple_row_defs Let_def split: option.splits)

lemma simple_rows_add_edge:
  "simple_building_row py cols s r = Inr s' \<Longrightarrow>
   or_unknown py (row_get cols r ''building_id'' (Str [])) \<noteq> Str ''unknown'' \<Longrightarrow>
   has_node (graph s) (dept_node py (or_unknown py (row_get cols r ''building_id'' (Str [])))) \<Longrightarrow>
     (dept_node py (or_unknown py (row_get cols r ''building_id'' (Str []))),
      building_node py (cell_at r ''id'')) \<in> set (edges (graph s'))"
  "simple_floor_row py cols s r = Inr s' \<Longrightarrow>
   or_unknown py (row_get cols r ''building_id'' (Str [])) \<noteq> Str ''unknown'' \<Longrightarrow>
   has_node (graph s) (building_node py (or_unknown py (row_get cols r ''building_id'' (Str [])))) \<Longrightarrow>
     (building_node py (or_unknown py (row_get cols r ''building_id'' (Str []))),
      floor_node py (cell_at r ''id'')) \<in> set (edges (graph s'))"
  "simple_room_row py cols s r = Inr s' \<Longrightarrow>
   or_unknown py (row_get cols r ''building_id'' (Str [])) \<noteq> Str ''unknown'' \<Longrightarrow>
   has_node (graph s) (floor_node py (or_unknown py (row_get cols r ''building_id'' (Str [])))) \<Longrightarrow>
     (floor_node py (or_unknown py (row_get cols r ''building_id'' (Str []))),
      room_node py (cell_at r ''id'')) \<in> set (edges (graph s'))"
  by (auto simp add: simple_row_defs Let_def split: option.splits dest!: or_unknown_known)

lemma department_row_links:
  assumes row: "simple_department_row py cols s r = Inr s'" and inv: "simple_links py s"
    and none: "buildings s = []"
  shows "simple_links py s'"
proof -
  note keep = simple_rows_keep_mappings(1) [OF row]
  note edges = simple_rows_grow_edges(1) [OF row]
  note nodes = simple_rows_grow_nodes(1) [OF row]
  from simple_rows_write(1) [OF row] obtain e where
    w: "departments s' = dict_set (cell_at r ''id'') e (departments s)" by blast
  from inv have i: "nodes_present (dept_node py) (departments s) (graph s)"
    "nodes_present (building_node py) (buildings s) (graph s)"
    "nodes_present (floor_node py) (floors s) (graph s)"
    "linked_if_resolved (building_node py) (floor_node py) ''building_id''
       (buildings s) (floors s) (graph s)"
    "linked_if_resolved (floor_node py) (room_node py) ''floor_id''
       (floors s) (rooms s) (graph s)"
    by (simp_all add: simple_links_def)
  have "nodes_present (dept_node py) (departments s') (graph s')"
    unfolding w
    by (rule nodes_present_dict_set [OF nodes_present_grow [OF i(1) nodes]
          simple_rows_add_node(1) [OF row]])
  moreover have "nodes_present (building_node py) (buildings s') (graph s')"
    using nodes_present_grow [OF i(2) nodes] keep by simp
  moreover have "nodes_present (floor_node py) (floors s') (graph s')"
    using nodes_present_grow [OF i(3) nodes] keep by simp
  moreover have "linked_if_resolved (dept_node py) (building_node py) ''department_id''
       (departments s') (buildings s') (graph s')"
    using keep none by simp
  moreover have "linked_if_resolved (building_node py) (floor_node py) ''building_id''
       (buildings s') (floors s') (graph s')"
    using linked_if_resolved_grow [OF i(4) edges] keep by simp
  moreover have "linked_if_resolved (floor_node py) (room_node py) ''floor_id''
       (floors s') (rooms s') (graph s')"
    using linked_if_resolved_grow [OF i(5) edges] keep by simp
  ultimately show ?thesis by (simp add: simple_links_def)
qed

lemma building_row_links:
  assumes row: "simple_building_row py cols s r = Inr s'" and inv: "simple_links py s"
    and none: "floors s = []"
  shows "simple_links py s'"
proof -
  note keep = simple_rows_keep_mappings(2) [OF row]
  note edges = simple_rows_grow_edges(2) [OF row]
  note nodes = simple_rows_grow_nodes(2) [OF row]
  let ?p = "or_unknown py (row_get cols r ''building_id'' (Str []))"
  from simple_rows_record_parent(1) [OF row] obtain e where
    w: "buildings s' = dict_set (cell_at r ''id'') e (buildings s)"
    and p: "map_of e ''department_id'' = Some ?p" by blast
  from inv have i: "nodes_present (dept_node py) (departments s) (graph s)"
    "nodes_present (building_node py) (buildings s) (graph s)"
    "nodes_present (floor_node py) (floors s) (graph s)"
    "linked_if_resolved (dept_node py) (building_node py) ''department_id''
       (departments s) (buildings s) (graph s)"
    "linked_if_resolved (floor_node py) (room_node py) ''floor_id''
       (floors s) (rooms s) (graph s)"
    by (simp_all add: simple_links_def)
  have "nodes_present (dept_node py) (departments s') (graph s')"
    using nodes_present_grow [OF i(1) nodes] keep by simp
  moreover have "nodes_present (building_node py) (buildings s') (graph s')"
    unfolding w
    by (rule nodes_present_dict_set [OF nodes_present_grow [OF i(2) nodes]
          simple_rows_add_node(2) [OF row]])
  moreover have "nodes_present (floor_node py) (floors s') (graph s')"
    using nodes_present_grow [OF i(3) nodes] keep by simp
  moreover have "linked_if_resolved (dept_node py) (building_node py) ''department_id''
       (departments s') (buildings s') (graph s')"
  proof -
    have "linked_if_resolved (dept_node py) (building_node py) ''department_id''
       (departments s) (dict_set (cell_at r ''id'') e (buildings s)) (graph s')"
    proof (rule linked_if_resolved_dict_set [OF linked_if_resolved_grow [OF i(4) edges] p])
      assume "?p \<noteq> Str ''unknown''"
        and "dept_node py ?p \<in> dept_node py ` fst ` set (departments s)"
      with nodes_presentD [OF i(1)] simple_rows_add_edge(1) [OF row]
      show "(dept_node py ?p, building_node py (cell_at r ''id'')) \<in> set (edges (graph s'))"
        by blast
    qed
    with w keep show ?thesis by simp
  qed
  moreover have "linked_if_resolved (building_node py) (floor_node py) ''building_id''
       (buildings s') (floors s') (graph s')"
    using keep none by simp
  moreover have "linked_if_resolved (floor_node py) (room_node py) ''floor_id''
       (floors s') (rooms s') (graph s')"
    using linked_if_resolved_grow [OF i(5) edges] keep by simp
  ultimately show ?thesis by (simp add: simple_links_def)
qed

lemma floor_row_links:
  assumes row: "simple_floor_row py cols s r = Inr s'" and inv: "simple_links py s"
    and none: "rooms s = []"
  shows "simple_links py s'"
proof -
  note keep = simple_rows_keep_mappings(3) [OF row]
  note edges = simple_rows_grow_edges(3) [OF row]
  note nodes = simple_rows_grow_nodes(3) [OF row]
  let ?p = "or_unknown py (row_get cols r ''building_id'' (Str []))"
  from simple_rows_record_parent(2) [OF row] obtain e where
    w: "floors s' = dict_set (cell_at r ''id'') e (floors s)"
    and p: "map_of e ''building_id'' = Some ?p" by blast
  from inv have i: "nodes_present (dept_node py) (departments s) (graph s)"
    "nodes_present (building_node py) (buildings s) (graph s)"
    "nodes_present (floor_node py) (floors s) (graph s)"
    "linked_if_resolved (dept_node py) (building_node py) ''department_id''
       (departments s) (buildings s) (graph s)"
    "linked_if_resolved (building_node py) (floor_node py) ''building_id''
       (buildings s) (floors s) (graph s)"
    by (simp_all add: simple_links_def)
  have "nodes_present (dept_node py) (departments s') (graph s')"
    using nodes_present_grow [OF i(1) nodes] keep by simp
  moreover have "nodes_present (building_node py) (buildings s') (graph s')"
    using nodes_present_grow [OF i(2) nodes] keep by simp
  moreover have "nodes_present (floor_node py) (floors s') (graph s')"
    unfolding w
    by (rule nodes_present_dict_set [OF nodes_present_grow [OF i(3) nodes]
          simple_rows_add_node(3) [OF row]])
  moreover have "linked_if_resolved (dept_node py) (building_node py) ''department_id''
       (departments s') (buildings s') (graph s')"
    using linked_if_resolved_grow [OF i(4) edges] keep by simp
  moreover have "linked_if_resolved (building_node py) (floor_node py) ''building_id''
       (buildings s') (floors s') (graph s')"
  proof -
    have "linked_if_resolved (building_node py) (floor_node py) ''building_id''
       (buildings s) (dict_set (cell_at r ''id'') e (floors s)) (graph s')"
    proof (rule linked_if_resolved_dict_set [OF linked_if_resolved_grow [OF i(5) edges] p])
      assume "?p \<noteq> Str ''unknown''"
        and "building_node py ?p \<in> building_node py ` fst ` set (buildings s)"
      with nodes_presentD [OF i(2)] simple_rows_add_edge(2) [OF row]
      show "(building_node py ?p, floor_node py (cell_at r ''id'')) \<in> set (edges (graph s'))"
        by blast
    qed
    with w keep show ?thesis by simp
  qed
  moreover have "linked_if_resolved (floor_node py) (room_node py) ''floor_id''
       (floors s') (rooms s') (graph s')"
    using keep none by simp
  ultimately show ?thesis by (simp add: simple_links_def)
qed

lemma room_row_links:
  assumes row: "simple_room_row py cols s r = Inr s'" and inv: "simple_links py s"
  shows "simple_links py s'"
proof -
  note keep = simple_rows_keep_mappings(4) [OF row]
  note edges = simple_rows_grow_edges(4) [OF row]
  note nodes = simple_rows_grow_nodes(4) [OF row]
  let ?p = "or_unknown py (row_get cols r ''building_id'' (Str []))"
  from simple_rows_record_parent(3) [OF row] obtain e where
    w: "rooms s' = dict_set (cell_at r ''id'') e (rooms s)"
    and p: "map_of e ''floor_id'' = Some ?p" by blast
  from inv have i: "nodes_present (dept_node py) (departments s) (graph s)"
    "nodes_present (building_node py) (buildings s) (graph s)"
    "nodes_present (floor_node py) (floors s) (graph s)"
    "linked_if_resolved (dept_node py) (building_node py) ''department_id''
       (departments s) (buildings s) (graph s)"
    "linked_if_resolved (building_node py) (floor_node py) ''building_id''
       (buildings s) (floors s) (graph s)"
    "linked_if_resolved (floor_node py) (room_node py) ''floor_id''
       (floors s) (rooms s) (graph s)"
    by (simp_all add: simple_links_def)
  have "nodes_present (dept_node py) (departments s') (graph s')"
    using nodes_present_grow [OF i(1) nodes] keep by simp
  moreover have "nodes_present (building_node py) (buildings s') (graph s')"
    using nodes_present_grow [OF i(2) nodes] keep by simp
  moreover have "nodes_present (floor_node py) (floors s') (graph s')"
    using nodes_present_grow [OF i(3) nodes] keep by simp
  moreover have "linked_if_resolved (dept_node py) (building_node py) ''department_id''
       (departments s') (buildings s') (graph s')"
    using linked_if_resolved_grow [OF i(4) edges] keep by simp
  moreover have "linked_if_resolved (building_node py) (floor_node py) ''building_id''
       (buildings s') (floors s') (graph s')"
    using linked_if_resolved_grow [OF i(5) edges] keep by simp
  moreover have "linked_if_resolved (floor_node py) (room_node py) ''floor_id''
       (floors s') (rooms s') (graph s')"
  proof -
    have "linked_if_resolved (floor_node py) (room_node py) ''floor_id''
       (floors s) (dict_set (cell_at r ''id'') e (rooms s)) (graph s')"
    proof (rule linked_if_resolved_dict_set [OF linked_if_resolved_grow [OF i(6) edges] p])
      assume "?p \<noteq> Str ''unknown''"
        and "floor_node py ?p \<in> floor_node py ` fst ` set (floors s)"
      with nodes_presentD [OF i(3)] simple_rows_add_edge(3) [OF row]
      show "(floor_node py ?p, room_node py (cell_at r ''id'')) \<in> set (edges (graph s'))"
        by blast
    qed
    with w keep show ?thesis by simp
  qed
  ultimately show ?thesis by (simp add: simple_links_def)
qed

lemma simple_process_links:
  assumes run: "process_simple_format py d (reset d s0) = (None, s')"
  shows "simple_links py s'"
proof -
  let ?cols = "columns d"
  from simple_phases [OF run] obtain s1 s2 s3 where
    p1: "iterrows (simple_department_row py ?cols) (rows_of_type d ''department'') (reset d s0)
           = (None, s1)"
    and p2: "iterrows (simple_building_row py ?cols) (rows_of_type d ''building'') s1 = (None, s2)"
    and p3: "iterrows (simple_floor_row py ?cols) (rows_of_type d ''floor'') s2 = (None, s3)"
    and p4: "iterrows (simple_room_row py ?cols) (rows_of_type d ''room'') s3 = (None, s')"
    by blast
  let ?P1 = "\<lambda>s. simple_links py s \<and> buildings s = [] \<and> floors s = [] \<and> rooms s = []"
  let ?P2 = "\<lambda>s. simple_links py s \<and> floors s = [] \<and> rooms s = []"
  let ?P3 = "\<lambda>s. simple_links py s \<and> rooms s = []"
  have 0: "?P1 (reset d s0)"
    by (simp add: simple_links_def nodes_present_def reset_def)
  have 1: "?P1 s1"
  proof (rule iterrows_inv [OF p1, of ?P1, OF 0])
    fix s r t
    assume "?P1 s" and "simple_department_row py ?cols s r = Inr t"
    then show "?P1 t"
      using department_row_links [of py ?cols s r t] simple_rows_keep_mappings(1) [of py ?cols s r t]
      by simp
  qed
  then have "?P2 s1" by simp
  have 2: "?P2 s2"
  proof (rule iterrows_inv [OF p2, of ?P2, OF \<open>?P2 s1\<close>])
    fix s r t
    assume "?P2 s" and "simple_building_row py ?cols s r = Inr t"
    then show "?P2 t"
      using building_row_links [of py ?cols s r t] simple_rows_keep_mappings(2) [of py ?cols s r t]
      by simp
  qed
  then have "?P3 s2" by simp
  have 3: "?P3 s3"
  proof (rule iterrows_inv [OF p3, of ?P3, OF \<open>?P3 s2\<close>])
    fix s r t
    assume "?P3 s" and "simple_floor_row py ?cols s r = Inr t"
    then show "?P3 t"
      using floor_row_links [of py ?cols s r t] simple_rows_keep_mappings(3) [of py ?cols s r t]
      by simp
  qed
  then have "simple_links py s3" by simp
  show ?thesis
  proof (rule iterrows_inv [OF p4, of "simple_links py", OF \<open>simple_links py s3\<close>])
    fix s r t
    assume "simple_links py s" and "simple_room_row py ?cols s r = Inr t"
    then show "simple_links py t" using room_row_links [of py ?cols s r t] by simp
  qed
qed

subsection \<open>The rows of the standard format\<close>

lemmas standard_row_defs =
  standard_department_row_def standard_building_row_def standard_floor_row_def
  standard_room_row_def

lemma standard_rows_keep_mappings:
  "standard_department_row py cols s r = Inr s' \<Longrightarrow>
     buildings s' = buildings s \<and> floors s' = floors s \<and> rooms s' = rooms s"
  "standard_building_row py cols s r = Inr s' \<Longrightarrow>
     departments s' = departments s \<and> floors s' = floors s \<and> rooms s' = rooms s"
  "standard_floor_row py cols s r = Inr s' \<Longrightarrow>
     departments s' = departments s \<and> buildings s' = buildings s \<and> rooms s' = rooms s"
  "standard_room_row py cols s r = Inr s' \<Longrightarrow>
     departments s' = departments s \<and> buildings s' = buildings s \<and> floors s' = floors s"
  by (auto simp add: standard_row_defs Let_def split: option.splits)

lemma standard_rows_grow_edges:
  "standard_department_row py cols s r = Inr s' \<Longrightarrow> set (edges (graph s)) \<subseteq> set (edges (graph s'))"
  "standard_building_row py cols s r = Inr s' \<Longrightarrow> set (edges (graph s)) \<subseteq> set (edges (graph s'))"
  "standard_floor_row py cols s r = Inr s' \<Longrightarrow> set (edges (graph s)) \<subseteq> set (edges (graph s'))"
  "standard_room_row py cols s r = Inr s' \<Longrightarrow> set (edges (graph s)) \<subseteq> set (edges (graph s'))"
  by (auto simp add: standard_row_defs Let_def split: option.splits)

lemma standard_rows_link:
  "standard_building_row py cols s r = Inr s' \<Longrightarrow>
     \<exists>e. buildings s' = dict_set (cell_at r ''building_id'') e (buildings s)
        \<and> map_of e ''department_id'' = Some (cell_at r ''department_id'')"
  "standard_building_row py cols s r = Inr s' \<Longrightarrow>
     (dept_node py (cell_at r ''department_id''), building_node py (cell_at r ''building_id''))
       \<in> set (edges (graph s'))"
  "standard_floor_row py cols s r = Inr s' \<Longrightarrow>
     \<exists>e. floors s' = dict_set (cell_at r ''floor_id'') e (floors s)
        \<and> map_of e ''building_id'' = Some (cell_at r ''building_id'')"
  "standard_floor_row py cols s r = Inr s' \<Longrightarrow>
     (building_node py (cell_at r ''building_id''), floor_node py (cell_at r ''floor_id''))
       \<in> set (edges (graph s'))"
  "standard_room_row py cols s r = Inr s' \<Longrightarrow>
     \<exists>e. rooms s' = dict_set (cell_at r ''room_id'') e (rooms s)
        \<and> map_of e ''floor_id'' = Some (cell_at r ''floor_id'')"
  "standard_room_row py cols s r = Inr s' \<Longrightarrow>
     (floor_node py (cell_at r ''floor_id''), room_node py (cell_at r ''room_id''))
       \<in> set (edges (graph s'))"
  by (auto simp add: standard_row_defs Let_def split: option.splits)

lemma standard_rows_links:
  assumes inv: "standard_links py s"
  shows "standard_department_row py cols s r = Inr s' \<Longrightarrow> standard_links py s'"
    and "standard_building_row py cols s r = Inr s' \<Longrightarrow> standard_links py s'"
    and "standard_floor_row py cols s r = Inr s' \<Longrightarrow> standard_links py s'"
    and "standard_room_row py cols s r = Inr s' \<Longrightarrow> standard_links py s'"
proof -
  from inv have i:
    "linked (dept_node py) (building_node py) ''department_id'' (buildings s) (graph s)"
    "linked (building_node py) (floor_node py) ''building_id'' (floors s) (graph s)"
    "linked (floor_node py) (room_node py) ''floor_id'' (rooms s) (graph s)"
    by (simp_all add: standard_links_def)
  {
    assume row: "standard_department_row py cols s r = Inr s'"
    note g = standard_rows_grow_edges(1) [OF row]
    from linked_grow [OF i(1) g] linked_grow [OF i(2) g] linked_grow [OF i(3) g]
      standard_rows_keep_mappings(1) [OF row]
    show "standard_links py s'" by (simp add: standard_links_def)
  next
    assume row: "standard_building_row py cols s r = Inr s'"
    note g = standard_rows_grow_edges(2) [OF row]
    from standard_rows_link(1) [OF row] obtain e where
      w: "buildings s' = dict_set (cell_at r ''building_id'') e (buildings s)"
      and p: "map_of e ''department_id'' = Some (cell_at r ''department_id'')" by blast
    from linked_dict_set [OF linked_grow [OF i(1) g] p standard_rows_link(2) [OF row]]
      linked_grow [OF i(2) g] linked_grow [OF i(3) g] w
      standard_rows_keep_mappings(2) [OF row]
    show "standard_links py s'" by (simp add: standard_links_def)
  next
    assume row: "standard_floor_row py cols s r = Inr s'"
    note g = standard_rows_grow_edges(3) [OF row]
    from standard_rows_link(3) [OF row] obtain e where
      w: "floors s' = dict_set (cell_at r ''floor_id'') e (floors s)"
      and p: "map_of e ''building_id'' = Some (cell_at r ''building_id'')" by blast
    from linked_dict_set [OF linked_grow [OF i(2) g] p standard_rows_link(4) [OF row]]
      linked_grow [OF i(1) g] linked_grow [OF i(3) g] w
      standard_rows_keep_mappings(3) [OF row]
    show "standard_links py s'" by (simp add: standard_links_def)
  next
    assume row: "standard_room_row py cols s r = Inr s'"
    note g = standard_rows_grow_edges(4) [OF row]
    from standard_rows_link(5) [OF row] obtain e where
      w: "rooms s' = dict_set (cell_at r ''room_id'') e (rooms s)"
      and p: "map_of e ''floor_id'' = Some (cell_at r ''floor_id'')" by blast
    from linked_dict_set [OF linked_grow [OF i(3) g] p standard_rows_link(6) [OF row]]
      linked_grow [OF i(1) g] linked_grow [OF i(2) g] w
      standard_rows_keep_mappings(4) [OF row]
    show "standard_links py s'" by (simp add: standard_links_def)
  }
qed

lemma first_rows_of_inv:
  assumes "first_rows_of c body d s = (e, s')" and "P s"
    and "\<And>s r s'. P s \<Longrightarrow> body (columns d) s r = Inr s' \<Longrightarrow> P s'"
  shows "P s'"
proof (cases "c \<in> set (columns d)")
  case True
  with assms(1) have run: "iterrows (body (columns d)) (drop_duplicates d c) s = (e, s')"
    by (simp add: first_rows_of_def)
  show ?thesis by (rule iterrows_inv [OF run, of P, OF assms(2)]) (rule assms(3))
next
  case False
  with assms(1,2) show ?thesis by (simp add: first_rows_of_def)
qed

lemma all_rows_of_inv:
  assumes "all_rows_of body d s = (e, s')" and "P s"
    and "\<And>s r s'. P s \<Longrightarrow> body (columns d) s r = Inr s' \<Longrightarrow> P s'"
  shows "P s'"
proof -
  from assms(1) have run: "iterrows (body (columns d)) (rows d) s = (e, s')"
    by (simp add: all_rows_of_def)
  show ?thesis by (rule iterrows_inv [OF run, of P, OF assms(2)]) (rule assms(3))
qed

lemma standard_process_links:
  assumes run: "process_standard_format py d s = (e, s')" and inv: "standard_links py s"
  shows "standard_links py s'"
proof (rule in_sequence_inv [OF run [unfolded process_standard_format_def],
        of "standard_links py", OF inv])
  fix f s1 e1 s2
  assume f: "f \<in> set [first_rows_of ''department_id'' (standard_department_row py) d,
        first_rows_of ''building_id'' (standard_building_row py) d,
        first_rows_of ''floor_id'' (standard_floor_row py) d,
        all_rows_of (standard_room_row py) d]"
    and p: "standard_links py s1" and r: "f s1 = (e1, s2)"
  from f consider
      "f = first_rows_of ''department_id'' (standard_department_row py) d"
    | "f = first_rows_of ''building_id'' (standard_building_row py) d"
    | "f = first_rows_of ''floor_id'' (standard_floor_row py) d"
    | "f = all_rows_of (standard_room_row py) d" by auto
  then show "standard_links py s2"
  proof cases
    case 1
    with r have r1: "first_rows_of ''department_id'' (standard_department_row py) d s1 = (e1, s2)"
      by simp
    show ?thesis
      by (rule first_rows_of_inv [OF r1, of "standard_links py", OF p])
         (rule standard_rows_links(1))
  next
    case 2
    with r have r1: "first_rows_of ''building_id'' (standard_building_row py) d s1 = (e1, s2)"
      by simp
    show ?thesis
      by (rule first_rows_of_inv [OF r1, of "standard_links py", OF p])
         (rule standard_rows_links(2))
  next
    case 3
    with r have r1: "first_rows_of ''floor_id'' (standard_floor_row py) d s1 = (e1, s2)"
      by simp
    show ?thesis
      by (rule first_rows_of_inv [OF r1, of "standard_links py", OF p])
         (rule standard_rows_links(3))
  next
    case 4
    with r have r1: "all_rows_of (standard_room_row py) d s1 = (e1, s2)"
      by simp
    show ?thesis
      by (rule all_rows_of_inv [OF r1, of "standard_links py", OF p])
         (rule standard_rows_links(4))
  qed
qed

text \<open>
  Where the mappings and the graph agree. After a successful import on the simple path,
  every building, floor and room whose recorded parent is not the placeholder \<^verbatim>\<open>unknown\<close> and
  has the node name of an imported parent has the edge from that parent in the graph; after
  a successful import on the standard path, every building, floor and room has the edge
  from its recorded parent.
\<close>

lemma parent_links_agree:
  assumes imp: "import_from_csv py d self = (None, s')"
  shows "(''type'' \<in> set (columns d) \<longrightarrow>
            linked_if_resolved (dept_node py) (building_node py) ''department_id''
              (departments s') (buildings s') (graph s')
          \<and> linked_if_resolved (building_node py) (floor_node py) ''building_id''
              (buildings s') (floors s') (graph s')
          \<and> linked_if_resolved (floor_node py) (room_node py) ''floor_id''
              (floors s') (rooms s') (graph s'))
       \<and> (''type'' \<notin> set (columns d) \<longrightarrow>
            linked (dept_node py) (building_node py) ''department_id'' (buildings s') (graph s')
          \<and> linked (building_node py) (floor_node py) ''building_id'' (floors s') (graph s')
          \<and> linked (floor_node py) (room_node py) ''floor_id'' (rooms s') (graph s'))"
proof (cases "''type'' \<in> set (columns d)")
  case True
  from simple_import_success [OF imp True] obtain cs where
    "process_simple_format py d (reset d (self\<lparr>required_columns := cs\<rparr>)) = (None, s')" ..
  from simple_process_links [OF this] have "simple_links py s'" .
  with True show ?thesis by (simp add: simple_links_def)
next
  case False
  from standard_import_success [OF imp False] have
    run: "process_standard_format py d (reset d (self\<lparr>required_columns := standard_columns\<rparr>))
            = (None, s')" by simp
  have "standard_links py (reset d (self\<lparr>required_columns := standard_columns\<rparr>))"
    by (simp add: standard_links_def reset_def linked_def)
  from standard_process_links [OF run this] have "standard_links py s'" .
  with False show ?thesis by (simp add: standard_links_def)
qed

text \<open>
  Claim C4. After every successful import the graph and the mappings should agree on every
  parent link, also for a row whose parent reference was dangling and was resolved by
  fallback: the edge into a floor starts at the node of the building that the floors mapping
  records for it. The code does not keep them in step on the fallback. In \<open>dangling_campus\<close>
  the floor \<open>F1\<close> names a building \<open>BX\<close> that the table does not have; the import succeeds, the
  only edge into \<^verbatim>\<open>floor_F1\<close> starts at \<^verbatim>\<open>building_B1\<close>, the first building, and the floors
  mapping records \<open>BX\<close> as the building of \<open>F1\<close>.
\<close>

theorem fallback_diverges:
  "fst (import_from_csv py0 dangling_campus empty_manager) = None
   \<and> map_option (\<lambda>e. map_of e ''building_id'')
       (map_of (floors (loaded dangling_campus)) (Str ''F1'')) = Some (Some (Str ''BX''))
   \<and> filter (\<lambda>e. snd e = ''floor_F1'') (edges (graph (loaded dangling_campus)))
       = [(''building_B1'', ''floor_F1'')]"
  by code_simp

end
